theory Spec2Isabelle
  imports Complex_Main "HOL-Library.AList"
begin

section \<open>JavaScript numbers\<close>

text \<open>
  The analytics engine (\<^verbatim>\<open>analytics-service.ts\<close>, \<^verbatim>\<open>kpi-calculator.ts\<close>,
  \<^verbatim>\<open>process-analytics.ts\<close>) computes on JavaScript numbers. A number is modelled as a
  real or one of the three special values of IEEE 754: the arithmetic below follows the
  special-value rules of the language (\<open>0/0\<close>, \<open>Infinity - Infinity\<close> and
  \<open>0 * Infinity\<close> are \<open>NaN\<close>, every comparison with \<open>NaN\<close> is false), and is
  exact on finite values: rounding, overflow and the sign of zero are not modelled.
\<close>

datatype jsnum = NaN | PInf | NInf | Fin real

instantiation jsnum :: "{zero, one, plus, minus, uminus, times, inverse, abs, ord}"
begin

definition zero_jsnum :: jsnum where
  "zero_jsnum = Fin 0"

definition one_jsnum :: jsnum where
  "one_jsnum = Fin 1"

fun plus_jsnum :: "jsnum \<Rightarrow> jsnum \<Rightarrow> jsnum" where
  "plus_jsnum NaN _ = NaN"
| "plus_jsnum _ NaN = NaN"
| "plus_jsnum PInf NInf = NaN"
| "plus_jsnum NInf PInf = NaN"
| "plus_jsnum PInf _ = PInf"
| "plus_jsnum _ PInf = PInf"
| "plus_jsnum NInf _ = NInf"
| "plus_jsnum _ NInf = NInf"
| "plus_jsnum (Fin a) (Fin b) = Fin (a + b)"

fun uminus_jsnum :: "jsnum \<Rightarrow> jsnum" where
  "uminus_jsnum NaN = NaN"
| "uminus_jsnum PInf = NInf"
| "uminus_jsnum NInf = PInf"
| "uminus_jsnum (Fin a) = Fin (- a)"

definition minus_jsnum :: "jsnum \<Rightarrow> jsnum \<Rightarrow> jsnum" where
  "minus_jsnum (a::jsnum) (b::jsnum) = a + (- b)"

text \<open>The sign of an infinite product or quotient; a zero counts as positive.\<close>

fun times_jsnum :: "jsnum \<Rightarrow> jsnum \<Rightarrow> jsnum" where
  "times_jsnum NaN _ = NaN"
| "times_jsnum _ NaN = NaN"
| "times_jsnum PInf PInf = PInf"
| "times_jsnum PInf NInf = NInf"
| "times_jsnum NInf PInf = NInf"
| "times_jsnum NInf NInf = PInf"
| "times_jsnum PInf (Fin b) = (if b = 0 then NaN else if 0 < b then PInf else NInf)"
| "times_jsnum NInf (Fin b) = (if b = 0 then NaN else if 0 < b then NInf else PInf)"
| "times_jsnum (Fin a) PInf = (if a = 0 then NaN else if 0 < a then PInf else NInf)"
| "times_jsnum (Fin a) NInf = (if a = 0 then NaN else if 0 < a then NInf else PInf)"
| "times_jsnum (Fin a) (Fin b) = Fin (a * b)"

fun divide_jsnum :: "jsnum \<Rightarrow> jsnum \<Rightarrow> jsnum" where
  "divide_jsnum NaN _ = NaN"
| "divide_jsnum _ NaN = NaN"
| "divide_jsnum PInf PInf = NaN"
| "divide_jsnum PInf NInf = NaN"
| "divide_jsnum NInf PInf = NaN"
| "divide_jsnum NInf NInf = NaN"
| "divide_jsnum PInf (Fin b) = (if 0 \<le> b then PInf else NInf)"
| "divide_jsnum NInf (Fin b) = (if 0 \<le> b then NInf else PInf)"
| "divide_jsnum (Fin a) PInf = Fin 0"
| "divide_jsnum (Fin a) NInf = Fin 0"
| "divide_jsnum (Fin a) (Fin b) =
     (if b = 0 then (if a = 0 then NaN else if 0 < a then PInf else NInf)
      else Fin (a / b))"

definition inverse_jsnum :: "jsnum \<Rightarrow> jsnum" where
  "inverse_jsnum (a::jsnum) = (Fin 1) div a"

fun abs_jsnum :: "jsnum \<Rightarrow> jsnum" where
  "abs_jsnum NaN = NaN"
| "abs_jsnum PInf = PInf"
| "abs_jsnum NInf = PInf"
| "abs_jsnum (Fin a) = Fin \<bar>a\<bar>"

fun less_jsnum :: "jsnum \<Rightarrow> jsnum \<Rightarrow> bool" where
  "less_jsnum NaN _ = False"
| "less_jsnum _ NaN = False"
| "less_jsnum _ NInf = False"
| "less_jsnum PInf _ = False"
| "less_jsnum NInf _ = True"
| "less_jsnum (Fin a) PInf = True"
| "less_jsnum (Fin a) (Fin b) = (a < b)"

fun less_eq_jsnum :: "jsnum \<Rightarrow> jsnum \<Rightarrow> bool" where
  "less_eq_jsnum NaN _ = False"
| "less_eq_jsnum _ NaN = False"
| "less_eq_jsnum NInf _ = True"
| "less_eq_jsnum _ PInf = True"
| "less_eq_jsnum PInf _ = False"
| "less_eq_jsnum (Fin a) NInf = False"
| "less_eq_jsnum (Fin a) (Fin b) = (a \<le> b)"

instance ..

end

text \<open>Strict equality \<^verbatim>\<open>===\<close> on numbers: \<open>NaN\<close> differs from itself.\<close>

definition js_eq :: "jsnum \<Rightarrow> jsnum \<Rightarrow> bool" where
  "js_eq a b = (a \<noteq> NaN \<and> a = b)"

definition isNaN :: "jsnum \<Rightarrow> bool" where
  "isNaN a = (a = NaN)"

fun Math_sqrt :: "jsnum \<Rightarrow> jsnum" where
  "Math_sqrt NaN = NaN"
| "Math_sqrt PInf = PInf"
| "Math_sqrt NInf = NaN"
| "Math_sqrt (Fin a) = (if a < 0 then NaN else Fin (sqrt a))"

fun Math_exp :: "jsnum \<Rightarrow> jsnum" where
  "Math_exp NaN = NaN"
| "Math_exp PInf = PInf"
| "Math_exp NInf = Fin 0"
| "Math_exp (Fin a) = Fin (exp a)"

fun Math_log :: "jsnum \<Rightarrow> jsnum" where
  "Math_log NaN = NaN"
| "Math_log PInf = PInf"
| "Math_log NInf = NaN"
| "Math_log (Fin a) = (if a < 0 then NaN else if a = 0 then NInf else Fin (ln a))"

fun Math_floor :: "jsnum \<Rightarrow> jsnum" where
  "Math_floor (Fin a) = Fin (of_int \<lfloor>a\<rfloor>)"
| "Math_floor a = a"

text \<open>\<^verbatim>\<open>Math.max(a, b)\<close> and \<^verbatim>\<open>Math.min(a, b)\<close>: \<open>NaN\<close> when an argument is.\<close>

definition Math_max :: "jsnum \<Rightarrow> jsnum \<Rightarrow> jsnum" where
  "Math_max a b = (if a = NaN \<or> b = NaN then NaN else if a < b then b else a)"

definition Math_min :: "jsnum \<Rightarrow> jsnum \<Rightarrow> jsnum" where
  "Math_min a b = (if a = NaN \<or> b = NaN then NaN else if b < a then b else a)"

text \<open>\<^verbatim>\<open>Math.pow(a, 2)\<close>, the only power the engine takes.\<close>

definition Math_pow2 :: "jsnum \<Rightarrow> jsnum" where
  "Math_pow2 a = a * a"

text \<open>\<^verbatim>\<open>Math.max(...xs)\<close> and \<^verbatim>\<open>Math.min(...xs)\<close> over a spread array: \<open>-Infinity\<close> and
  \<open>Infinity\<close> on the empty array.\<close>

definition Math_max_list :: "jsnum list \<Rightarrow> jsnum" where
  "Math_max_list xs = foldl Math_max NInf xs"

definition Math_min_list :: "jsnum list \<Rightarrow> jsnum" where
  "Math_min_list xs = foldl Math_min PInf xs"

text \<open>The length of an array, as a number.\<close>

definition num :: "nat \<Rightarrow> jsnum" where
  "num n = Fin (real n)"

text \<open>\<^verbatim>\<open>xs.reduce((sum, v) => sum + v, 0)\<close>.\<close>

definition sum_reduce :: "jsnum list \<Rightarrow> jsnum" where
  "sum_reduce xs = foldl (+) (Fin 0) xs"

text \<open>\<^verbatim>\<open>xs.slice(start, end)\<close> for indices that are not negative; both are clamped to
  the length.\<close>

definition slice :: "'a list \<Rightarrow> nat \<Rightarrow> nat \<Rightarrow> 'a list" where
  "slice xs start stop = drop start (take stop xs)"

section \<open>Values, records and the runtime library\<close>

text \<open>A cell of a record is a dynamically typed scalar. A record maps field names to
  cells; reading a field the record does not have gives \<open>undefined\<close>.\<close>

datatype jsval = JUndefined | JNull | JBool bool | JNum jsnum | JStr string

type_synonym jsrecord = "string \<Rightarrow> jsval option"

definition get_field :: "jsrecord \<Rightarrow> string \<Rightarrow> jsval" where
  "get_field item field = (case item field of None \<Rightarrow> JUndefined | Some v \<Rightarrow> v)"

text \<open>The functions of the JavaScript runtime that the engine calls and that are no part
  of the repository are parameters of the model: the conversion of a string to a number
  (\<^verbatim>\<open>Number(s)\<close>), of a number to a string (\<^verbatim>\<open>String(n)\<close>), \<^verbatim>\<open>s.toLowerCase()\<close>, and
  the time value of a date built from a cell (\<^verbatim>\<open>new Date(v).getTime()\<close>, \<open>NaN\<close> for an
  invalid date).\<close>

record runtime =
  StringToNumber :: "string \<Rightarrow> jsnum"
  NumberToString :: "jsnum \<Rightarrow> string"
  toLowerCase :: "string \<Rightarrow> string"
  DateGetTime :: "jsval \<Rightarrow> jsnum"

fun typeof :: "jsval \<Rightarrow> string" where
  "typeof JUndefined = ''undefined''"
| "typeof JNull = ''object''"
| "typeof (JBool _) = ''boolean''"
| "typeof (JNum _) = ''number''"
| "typeof (JStr _) = ''string''"

text \<open>\<^verbatim>\<open>Boolean(v)\<close>, which is also the truthiness that \<^verbatim>\<open>||\<close> and \<^verbatim>\<open>!\<close> test.\<close>

fun Boolean :: "jsval \<Rightarrow> bool" where
  "Boolean JUndefined = False"
| "Boolean JNull = False"
| "Boolean (JBool b) = b"
| "Boolean (JNum n) = (n \<noteq> Fin 0 \<and> n \<noteq> NaN)"
| "Boolean (JStr s) = (s \<noteq> [])"

fun String :: "runtime \<Rightarrow> jsval \<Rightarrow> string" where
  "String rt JUndefined = ''undefined''"
| "String rt JNull = ''null''"
| "String rt (JBool b) = (if b then ''true'' else ''false'')"
| "String rt (JNum n) = NumberToString rt n"
| "String rt (JStr s) = s"

fun Number :: "runtime \<Rightarrow> jsval \<Rightarrow> jsnum" where
  "Number rt JUndefined = NaN"
| "Number rt JNull = Fin 0"
| "Number rt (JBool b) = (if b then Fin 1 else Fin 0)"
| "Number rt (JNum n) = n"
| "Number rt (JStr s) = StringToNumber rt s"

text \<open>Strict equality \<^verbatim>\<open>===\<close> on cells.\<close>

fun strict_equals :: "jsval \<Rightarrow> jsval \<Rightarrow> bool" where
  "strict_equals JUndefined JUndefined = True"
| "strict_equals JNull JNull = True"
| "strict_equals (JBool a) (JBool b) = (a = b)"
| "strict_equals (JNum a) (JNum b) = js_eq a b"
| "strict_equals (JStr a) (JStr b) = (a = b)"
| "strict_equals _ _ = False"

text \<open>\<^verbatim>\<open>option || fallback\<close> on an optional numeric option: the fallback replaces
  \<open>undefined\<close>, \<open>0\<close> and \<open>NaN\<close>.\<close>

definition or_default :: "jsnum option \<Rightarrow> jsnum \<Rightarrow> jsnum" where
  "or_default v d =
     (case v of None \<Rightarrow> d | Some n \<Rightarrow> if Boolean (JNum n) then n else d)"

text \<open>\<^verbatim>\<open>[...xs].sort(cmp)\<close>: the sort of the language is stable and puts \<open>a\<close> after \<open>b\<close>
  when \<open>cmp(a, b) > 0\<close>. It is modelled as the insertion sort that inserts the elements
  from the last to the first, each before the first element it need not follow. (For a
  comparator that is not a consistent order the language leaves the result to the
  implementation; the model is then one possible result.)\<close>

fun sort_insert :: "('a \<Rightarrow> 'a \<Rightarrow> jsnum) \<Rightarrow> 'a \<Rightarrow> 'a list \<Rightarrow> 'a list" where
  "sort_insert cmp x [] = [x]"
| "sort_insert cmp x (y # ys) =
     (if cmp x y > Fin 0 then y # sort_insert cmp x ys else x # y # ys)"

definition Array_sort :: "('a \<Rightarrow> 'a \<Rightarrow> jsnum) \<Rightarrow> 'a list \<Rightarrow> 'a list" where
  "Array_sort cmp xs = foldr (sort_insert cmp) xs []"

section \<open>Objects used as dictionaries\<close>

text \<open>An object literal \<^verbatim>\<open>{}\<close> filled by assignment is modelled by the association list
  of its own properties in the order of their creation. \<^verbatim>\<open>Object.entries\<close> lists the
  properties whose name is an array index (a canonical decimal numeral below
  \<open>2\<^sup>3\<^sup>2 - 1\<close>) first, in ascending numeric order, and then the others in the order of
  their creation. Reading a name that is no own property finds the properties that every
  object inherits from \<^verbatim>\<open>Object.prototype\<close>.\<close>

type_synonym 'a jsobject = "(string \<times> 'a) list"

fun decimal_value :: "string \<Rightarrow> nat \<Rightarrow> nat option" where
  "decimal_value [] acc = Some acc"
| "decimal_value (c # cs) acc =
     (if 48 \<le> (of_char c :: nat) \<and> (of_char c :: nat) \<le> 57
      then decimal_value cs (10 * acc + (of_char c - 48)) else None)"

definition array_index :: "string \<Rightarrow> nat option" where
  "array_index s =
     (if s = [] \<or> (hd s = CHR ''0'' \<and> length s > 1) then None
      else case decimal_value s 0 of
             None \<Rightarrow> None
           | Some n \<Rightarrow> if n \<le> 4294967294 then Some n else None)"

definition own_keys_order :: "string list \<Rightarrow> string list" where
  "own_keys_order ks =
     sort_key (\<lambda>k. the (array_index k)) (filter (\<lambda>k. array_index k \<noteq> None) ks)
     @ filter (\<lambda>k. array_index k = None) ks"

definition Object_entries :: "'a jsobject \<Rightarrow> (string \<times> 'a) list" where
  "Object_entries obj = map (\<lambda>k. (k, the (map_of obj k))) (own_keys_order (map fst obj))"

definition Object_prototype_keys :: "string list" where
  "Object_prototype_keys =
     [''constructor'', ''__proto__'', ''hasOwnProperty'', ''isPrototypeOf'',
      ''propertyIsEnumerable'', ''toLocaleString'', ''toString'', ''valueOf'',
      ''__defineGetter__'', ''__defineSetter__'', ''__lookupGetter__'', ''__lookupSetter__'']"

datatype js_error = TypeError

text \<open>The grouping loop shared by \<^verbatim>\<open>generateDashboardAnalytics\<close> and
  \<^verbatim>\<open>identifyBestPerformers\<close>:
  \<^verbatim>\<open>const k = String(item[field] || 'Unknown'); if (!obj[k]) obj[k] = []; obj[k].push(item)\<close>.
  When \<open>k\<close> names an inherited property, \<open>obj[k]\<close> is that property, which is truthy and
  has no \<^verbatim>\<open>push\<close>: the call raises a \<^verbatim>\<open>TypeError\<close>.\<close>

definition group_key :: "runtime \<Rightarrow> string \<Rightarrow> jsrecord \<Rightarrow> string" where
  "group_key rt field item =
     (let v = get_field item field in String rt (if Boolean v then v else JStr ''Unknown''))"

definition group_push :: "jsrecord list jsobject \<Rightarrow> string \<Rightarrow> jsrecord \<Rightarrow> js_error + jsrecord list jsobject" where
  "group_push obj k item =
     (case map_of obj k of
        Some items \<Rightarrow> Inr (AList.update k (items @ [item]) obj)
      | None \<Rightarrow> if k \<in> set Object_prototype_keys then Inl TypeError
                else Inr (AList.update k [item] obj))"

fun group_by :: "runtime \<Rightarrow> string \<Rightarrow> jsrecord list \<Rightarrow> jsrecord list jsobject \<Rightarrow> js_error + jsrecord list jsobject" where
  "group_by rt field [] obj = Inr obj"
| "group_by rt field (item # items) obj =
     (case group_push obj (group_key rt field item) item of
        Inl e \<Rightarrow> Inl e
      | Inr obj' \<Rightarrow> group_by rt field items obj')"

section \<open>Helpers of \<^verbatim>\<open>KPICalculator\<close>\<close>

text \<open>\<^verbatim>\<open>KPICalculator\<close> and \<^verbatim>\<open>ProcessAnalytics\<close> each carry their own private copy of the
  statistical helpers; the copies are modelled separately, with the prefixes \<open>KPI_\<close>
  and \<open>PA_\<close>.\<close>

record regression =
  slope :: jsnum
  intercept :: jsnum
  rSquared :: jsnum

definition KPI_calculateMean :: "jsnum list \<Rightarrow> jsnum" where
  "KPI_calculateMean vs =
     (if length vs = 0 then Fin 0 else sum_reduce vs / num (length vs))"

definition KPI_calculateVariance :: "jsnum list \<Rightarrow> jsnum" where
  "KPI_calculateVariance vs =
     (if length vs \<le> 1 then Fin 0
      else let mean = KPI_calculateMean vs;
               squaredDiffs = map (\<lambda>v. Math_pow2 (v - mean)) vs
           in sum_reduce squaredDiffs / (num (length vs) - Fin 1))"

definition KPI_calculateStandardDeviation :: "jsnum list \<Rightarrow> jsnum" where
  "KPI_calculateStandardDeviation vs = Math_sqrt (KPI_calculateVariance vs)"

definition KPI_normalCDF :: "jsnum \<Rightarrow> jsnum" where
  "KPI_normalCDF x =
     (let t = Fin 1 / (Fin 1 + Fin 0.2316419 * \<bar>x\<bar>);
          d = Fin 0.3989423 * Math_exp (- x * x / Fin 2);
          p = d * t * (Fin 0.3193815 + t * (Fin (- 0.3565638) + t * (Fin 1.781478
                + t * (Fin (- 1.821256) + t * Fin 1.330274))))
      in if x > Fin 0 then Fin 1 - p else p)"

definition KPI_tDistPValue :: "jsnum \<Rightarrow> jsnum \<Rightarrow> jsnum" where
  "KPI_tDistPValue t df =
     (if df > Fin 30 then Fin 2 * (Fin 1 - KPI_normalCDF t)
      else let x = df / (df + t * t);
               p = Math_sqrt (Fin 1 - x) * (Fin 0.5 + (Fin 0.3989422804 * Math_exp (- t * t / Fin 2)));
               p' = p * (Fin 1 - Fin 1 / (Fin 4 * df))
           in Fin 2 * p')"

text \<open>The loop of \<^verbatim>\<open>calculateLinearRegression\<close>: one step adds the products of the
  deviations of \<open>x[i]\<close> and \<open>y[i]\<close> to \<open>(sumXY, sumXX, sumYY)\<close>.\<close>

definition regression_step ::
  "jsnum \<Rightarrow> jsnum \<Rightarrow> jsnum \<times> jsnum \<times> jsnum \<Rightarrow> jsnum \<times> jsnum \<Rightarrow> jsnum \<times> jsnum \<times> jsnum" where
  "regression_step xMean yMean acc xy =
     (case acc of (sumXY, sumXX, sumYY) \<Rightarrow>
        let xDiff = fst xy - xMean; yDiff = snd xy - yMean
        in (sumXY + xDiff * yDiff, sumXX + xDiff * xDiff, sumYY + yDiff * yDiff))"

definition KPI_calculateLinearRegression :: "jsnum list \<Rightarrow> jsnum list \<Rightarrow> regression" where
  "KPI_calculateLinearRegression x y =
     (if length x \<noteq> length y \<or> length x = 0
      then \<lparr>slope = Fin 0, intercept = Fin 0, rSquared = Fin 0\<rparr>
      else let xMean = KPI_calculateMean x; yMean = KPI_calculateMean y in
           case foldl (regression_step xMean yMean) (Fin 0, Fin 0, Fin 0) (zip x y) of
             (sumXY, sumXX, sumYY) \<Rightarrow>
               let slope = sumXY / sumXX;
                   intercept = yMean - slope * xMean;
                   rSquared = Math_pow2 sumXY / (sumXX * sumYY)
               in \<lparr>slope = slope, intercept = intercept, rSquared = rSquared\<rparr>)"

definition KPI_calculateMedian :: "jsnum list \<Rightarrow> jsnum" where
  "KPI_calculateMedian vs =
     (if length vs = 0 then Fin 0
      else let sortedValues = Array_sort (\<lambda>a b. a - b) vs;
               midIndex = length sortedValues div 2
           in if length sortedValues mod 2 = 0
              then (sortedValues ! (midIndex - 1) + sortedValues ! midIndex) / Fin 2
              else sortedValues ! midIndex)"

definition KPI_inverseNormalCDF :: "jsnum \<Rightarrow> jsnum" where
  "KPI_inverseNormalCDF p =
     (if p \<le> Fin 0 then NInf
      else if p \<ge> Fin 1 then PInf
      else
        let a1 = Fin (- 39.6968302866538); a2 = Fin 220.946098424521;
            a3 = Fin (- 275.928510446969); a4 = Fin 138.357751867269;
            a5 = Fin (- 30.6647980661472); a6 = Fin 2.50662827745924;
            b1 = Fin (- 54.4760987982241); b2 = Fin 161.585836858041;
            b3 = Fin (- 155.698979859887); b4 = Fin 66.8013118877197;
            b5 = Fin (- 13.2806815528857);
            c1 = Fin (- 0.00778489400243029); c2 = Fin (- 0.322396458041136);
            c3 = Fin (- 2.40075827716184); c4 = Fin (- 2.54973253934373);
            c5 = Fin 4.37466414146497; c6 = Fin 2.93816398269878;
            d1 = Fin 0.00778469570904146; d2 = Fin 0.32246712907004;
            d3 = Fin 2.445134137143; d4 = Fin 3.75440866190742;
            q = p - Fin 0.5
        in if \<bar>q\<bar> \<le> Fin 0.425
           then let r = Fin 0.180625 - q * q
                in q * (((((a6 * r + a5) * r + a4) * r + a3) * r + a2) * r + a1) /
                   (((((b5 * r + b4) * r + b3) * r + b2) * r + b1) * r + Fin 1)
           else let r0 = (if q < Fin 0 then p else Fin 1 - p);
                    r1 = Math_sqrt (- Math_log r0);
                    r = (if r1 \<le> Fin 5 then r1 - Fin 1.6 else r1 - Fin 5);
                    x = (((((c6 * r + c5) * r + c4) * r + c3) * r + c2) * r + c1) /
                        ((((d4 * r + d3) * r + d2) * r + d1) * r + Fin 1)
                in if q < Fin 0 then - x else x)"

definition KPI_getZScore :: "jsnum \<Rightarrow> jsnum" where
  "KPI_getZScore level =
     (if js_eq level (Fin 0.90) then Fin 1.645
      else if js_eq level (Fin 0.95) then Fin 1.96
      else if js_eq level (Fin 0.99) then Fin 2.576
      else let alpha = Fin 1 - level in - KPI_inverseNormalCDF (alpha / Fin 2))"

definition KPI_calculateWilsonInterval :: "jsnum \<Rightarrow> jsnum \<Rightarrow> jsnum \<Rightarrow> jsnum \<times> jsnum" where
  "KPI_calculateWilsonInterval successes total' level =
     (if js_eq total' (Fin 0) then (Fin 0, Fin 0)
      else let proportion = successes / total';
               z = KPI_getZScore level;
               z2 = z * z;
               numerator = proportion + z2 / (Fin 2 * total');
               denominator = Fin 1 + z2 / total';
               center = numerator / denominator;
               adjustment = z * Math_sqrt
                 ((proportion * (Fin 1 - proportion) + z2 / (Fin 4 * total')) / total') / denominator
           in (Math_max (Fin 0) (center - adjustment), Math_min (Fin 1) (center + adjustment)))"

definition KPI_calculateConfidenceIntervalForMean :: "jsnum list \<Rightarrow> jsnum \<Rightarrow> jsnum \<times> jsnum" where
  "KPI_calculateConfidenceIntervalForMean vs level =
     (if length vs = 0 then (Fin 0, Fin 0)
      else let mean = KPI_calculateMean vs;
               stdDev = KPI_calculateStandardDeviation vs;
               n = num (length vs);
               z = KPI_getZScore level;
               marginOfError = z * (stdDev / Math_sqrt n)
           in (mean - marginOfError, mean + marginOfError))"

record outlier_partition =
  cleanData :: "jsnum list"
  outliers :: "jsnum list"

definition KPI_detectOutliers :: "jsnum list \<Rightarrow> jsnum \<Rightarrow> outlier_partition" where
  "KPI_detectOutliers vs threshold =
     (if length vs = 0 then \<lparr>cleanData = [], outliers = []\<rparr>
      else let sortedValues = Array_sort (\<lambda>a b. a - b) vs;
               q1Index = nat \<lfloor>real (length sortedValues) * 0.25\<rfloor>;
               q3Index = nat \<lfloor>real (length sortedValues) * 0.75\<rfloor>;
               q1 = sortedValues ! q1Index;
               q3 = sortedValues ! q3Index;
               iqr = q3 - q1;
               lowerBound = q1 - threshold * iqr;
               upperBound = q3 + threshold * iqr
           in \<lparr>cleanData = filter (\<lambda>v. \<not> (v < lowerBound \<or> v > upperBound)) vs,
               outliers = filter (\<lambda>v. v < lowerBound \<or> v > upperBound) vs\<rparr>)"

section \<open>\<^verbatim>\<open>KPICalculator\<close>\<close>

text \<open>The state of an instance is its options; an option can be \<open>undefined\<close>.\<close>

record KPICalculatorOptions =
  confidenceLevel :: "jsnum option"
  outlierDetection :: "bool option"
  outlierThreshold :: "jsnum option"

record RFTResult =
  rate :: jsnum
  confidenceInterval :: "jsnum \<times> jsnum"
  sampleSize :: nat

record ProcessDurationResult =
  dur_average :: jsnum
  dur_median :: jsnum
  dur_min :: jsnum
  dur_max :: jsnum
  dur_stdDev :: jsnum
  dur_confidenceInterval :: "jsnum \<times> jsnum"
  dur_outliers :: "jsnum list"
  dur_sampleSize :: nat

text \<open>The test of the filter in \<^verbatim>\<open>calculateRFT\<close>.\<close>

definition isSuccess :: "runtime \<Rightarrow> string \<Rightarrow> jsval \<Rightarrow> jsrecord \<Rightarrow> bool" where
  "isSuccess rt successField successValue item =
     (let v = get_field item successField
      in if typeof successValue = ''boolean'' then JBool (Boolean v) = successValue
         else if typeof successValue = ''string''
         then toLowerCase rt (String rt v) = toLowerCase rt (String rt successValue)
         else strict_equals v successValue)"

definition calculateRFT ::
  "runtime \<Rightarrow> KPICalculatorOptions \<Rightarrow> jsrecord list \<Rightarrow> string \<Rightarrow> jsval \<Rightarrow> RFTResult" where
  "calculateRFT rt opts data successField successValue =
     (let totalCount = length data;
          successCount = length (filter (isSuccess rt successField successValue) data);
          rftRate = (if totalCount > 0 then num successCount / num totalCount else Fin 0);
          ci = KPI_calculateWilsonInterval (num successCount) (num totalCount)
                 (or_default (confidenceLevel opts) (Fin 0.95))
      in \<lparr>rate = rftRate, confidenceInterval = ci, sampleSize = totalCount\<rparr>)"

text \<open>The numeric values of a field: \<^verbatim>\<open>data.map(item => Number(item[field])).filter(v => !isNaN(v))\<close>.\<close>

definition numeric_values :: "runtime \<Rightarrow> jsrecord list \<Rightarrow> string \<Rightarrow> jsnum list" where
  "numeric_values rt data field =
     filter (\<lambda>v. \<not> isNaN v) (map (\<lambda>item. Number rt (get_field item field)) data)"

text \<open>The block \<^verbatim>\<open>if (this.options.outlierDetection) { ... }\<close> of
  \<^verbatim>\<open>calculateProcessDuration\<close>: the pair of \<open>cleanedDurations\<close> and \<open>outliers\<close> after it.\<close>

definition removeOutliers :: "KPICalculatorOptions \<Rightarrow> jsnum list \<Rightarrow> jsnum list \<times> jsnum list" where
  "removeOutliers opts durations =
     (if outlierDetection opts = Some True
      then let result = KPI_detectOutliers durations (or_default (outlierThreshold opts) (Fin 1.5))
           in (cleanData result, outliers result)
      else (durations, []))"

definition calculateProcessDuration ::
  "runtime \<Rightarrow> KPICalculatorOptions \<Rightarrow> jsrecord list \<Rightarrow> string \<Rightarrow> ProcessDurationResult" where
  "calculateProcessDuration rt opts data durationField =
     (let durations = numeric_values rt data durationField
      in if length durations = 0
         then \<lparr>dur_average = Fin 0, dur_median = Fin 0, dur_min = Fin 0, dur_max = Fin 0,
               dur_stdDev = Fin 0, dur_confidenceInterval = (Fin 0, Fin 0), dur_outliers = [],
               dur_sampleSize = 0\<rparr>
         else case removeOutliers opts durations of (cleanedDurations, outl) \<Rightarrow>
              \<lparr>dur_average = KPI_calculateMean cleanedDurations,
               dur_median = KPI_calculateMedian cleanedDurations,
               dur_min = Math_min_list cleanedDurations,
               dur_max = Math_max_list cleanedDurations,
               dur_stdDev = KPI_calculateStandardDeviation cleanedDurations,
               dur_confidenceInterval = KPI_calculateConfidenceIntervalForMean cleanedDurations
                  (or_default (confidenceLevel opts) (Fin 0.95)),
               dur_outliers = outl,
               dur_sampleSize = length durations\<rparr>)"

text \<open>The statistics of one period of \<^verbatim>\<open>identifyTrends\<close> and its result: a result
  without trend (\<^verbatim>\<open>{trend: 'none', significance: 0, periods: []}\<close>) when there is no
  numeric value, the fitted trend otherwise.\<close>

record PeriodStat =
  period :: nat
  ps_average :: jsnum
  ps_stdDev :: jsnum
  ps_sampleSize :: nat

record TrendDetails =
  trend :: string
  tr_slope :: jsnum
  tr_intercept :: jsnum
  tr_rSquared :: jsnum
  significant :: bool
  pValue :: jsnum
  periods_of :: "PeriodStat list"

datatype TrendResult = TrendNone | TrendFound TrendDetails

text \<open>The loop that cuts the values into \<open>periods\<close> slices of \<open>periodSize\<close> values, the
  last slice taking the rest. (For \<open>periods = 0\<close> the loop body never runs and the period
  size, \<open>Infinity\<close> in the source, is not used.)\<close>

definition periodValues :: "jsnum list \<Rightarrow> nat \<Rightarrow> jsnum list list" where
  "periodValues vs periods =
     (let periodSize = max 1 (length vs div periods)
      in map (\<lambda>i. slice vs (i * periodSize)
                 (if i = periods - 1 then length vs else (i + 1) * periodSize))
           [0..<periods])"

definition identifyTrends ::
  "runtime \<Rightarrow> KPICalculatorOptions \<Rightarrow> jsrecord list \<Rightarrow> string \<Rightarrow> string \<Rightarrow> nat \<Rightarrow> TrendResult" where
  "identifyTrends rt opts data timeField valueField periods =
     (let sortedData = Array_sort (\<lambda>a b. DateGetTime rt (get_field a timeField)
                                        - DateGetTime rt (get_field b timeField)) data;
          vs = numeric_values rt sortedData valueField
      in if length vs = 0 then TrendNone
         else
           let periodStats = map (\<lambda>(index, periodData).
                   \<lparr>period = index + 1,
                    ps_average = KPI_calculateMean periodData,
                    ps_stdDev = KPI_calculateStandardDeviation periodData,
                    ps_sampleSize = length periodData\<rparr>)
                 (enumerate 0 (periodValues vs periods));
               xValues = map (\<lambda>i. num (i + 1)) [0..<length periodStats];
               yValues = map ps_average periodStats;
               regression = KPI_calculateLinearRegression xValues yValues;
               trend = (if slope regression > Fin 0 then ''increasing''
                        else if slope regression < Fin 0 then ''decreasing''
                        else ''stable'');
               n = num periods;
               xMean = KPI_calculateMean xValues;
               sumSquaredX = foldl (\<lambda>sum x. sum + Math_pow2 (x - xMean)) (Fin 0) xValues;
               residuals = map (\<lambda>(y, x). y - (slope regression * x + intercept regression))
                             (zip yValues xValues);
               residualSumSquares = foldl (\<lambda>sum r. sum + r * r) (Fin 0) residuals;
               standardError = Math_sqrt (residualSumSquares / (n - Fin 2));
               slopeStandardError = standardError / Math_sqrt sumSquaredX;
               tStatistic = slope regression / slopeStandardError;
               degreesOfFreedom = n - Fin 2;
               pValue = KPI_tDistPValue \<bar>tStatistic\<bar> degreesOfFreedom;
               significant = (pValue < Fin 0.05)
           in TrendFound
                \<lparr>trend = trend, tr_slope = slope regression,
                 tr_intercept = intercept regression, tr_rSquared = rSquared regression,
                 significant = significant, pValue = pValue, periods_of = periodStats\<rparr>)"

section \<open>Helpers of \<^verbatim>\<open>ProcessAnalytics\<close>\<close>

definition PA_calculateMean :: "jsnum list \<Rightarrow> jsnum" where
  "PA_calculateMean vs =
     (if length vs = 0 then Fin 0 else sum_reduce vs / num (length vs))"

definition PA_calculateStandardDeviation :: "jsnum list \<Rightarrow> jsnum" where
  "PA_calculateStandardDeviation vs =
     (if length vs \<le> 1 then Fin 0
      else let mean = PA_calculateMean vs;
               squaredDiffs = map (\<lambda>v. Math_pow2 (v - mean)) vs
           in Math_sqrt (sum_reduce squaredDiffs / (num (length vs) - Fin 1)))"

definition PA_normalCDF :: "jsnum \<Rightarrow> jsnum" where
  "PA_normalCDF x =
     (let t = Fin 1 / (Fin 1 + Fin 0.2316419 * \<bar>x\<bar>);
          d = Fin 0.3989423 * Math_exp (- x * x / Fin 2);
          p = d * t * (Fin 0.3193815 + t * (Fin (- 0.3565638) + t * (Fin 1.781478
                + t * (Fin (- 1.821256) + t * Fin 1.330274))))
      in if x > Fin 0 then Fin 1 - p else p)"

definition PA_tDistPValue :: "jsnum \<Rightarrow> jsnum \<Rightarrow> jsnum" where
  "PA_tDistPValue t df =
     (if df > Fin 30 then Fin 2 * (Fin 1 - PA_normalCDF t)
      else let x = df / (df + t * t);
               p = Math_sqrt (Fin 1 - x) * (Fin 0.5 + (Fin 0.3989422804 * Math_exp (- t * t / Fin 2)));
               p' = p * (Fin 1 - Fin 1 / (Fin 4 * df))
           in Fin 2 * p')"

definition PA_calculateLinearRegression :: "jsnum list \<Rightarrow> jsnum list \<Rightarrow> regression" where
  "PA_calculateLinearRegression x y =
     (if length x \<noteq> length y \<or> length x = 0
      then \<lparr>slope = Fin 0, intercept = Fin 0, rSquared = Fin 0\<rparr>
      else let xMean = PA_calculateMean x; yMean = PA_calculateMean y in
           case foldl (regression_step xMean yMean) (Fin 0, Fin 0, Fin 0) (zip x y) of
             (sumXY, sumXX, sumYY) \<Rightarrow>
               let slope = sumXY / sumXX;
                   intercept = yMean - slope * xMean;
                   rSquared = Math_pow2 sumXY / (sumXX * sumYY)
               in \<lparr>slope = slope, intercept = intercept, rSquared = rSquared\<rparr>)"

definition PA_getTValue :: "jsnum \<Rightarrow> jsnum \<Rightarrow> jsnum" where
  "PA_getTValue degreesOfFreedom level =
     (if degreesOfFreedom > Fin 30
      then (if js_eq level (Fin 0.90) then Fin 1.645
            else if js_eq level (Fin 0.95) then Fin 1.96
            else if js_eq level (Fin 0.99) then Fin 2.576
            else if level > Fin 0.90 \<and> level < Fin 0.95
            then Fin 1.645 + (Fin 1.96 - Fin 1.645) * ((level - Fin 0.90) / Fin 0.05)
            else if level > Fin 0.95 \<and> level < Fin 0.99
            then Fin 1.96 + (Fin 2.576 - Fin 1.96) * ((level - Fin 0.95) / Fin 0.04)
            else Fin 2)
      else if js_eq level (Fin 0.95)
      then (if js_eq degreesOfFreedom (Fin 1) then Fin 12.71
            else if js_eq degreesOfFreedom (Fin 2) then Fin 4.30
            else if js_eq degreesOfFreedom (Fin 3) then Fin 3.18
            else if js_eq degreesOfFreedom (Fin 4) then Fin 2.78
            else if js_eq degreesOfFreedom (Fin 5) then Fin 2.57
            else if degreesOfFreedom \<le> Fin 10 then Fin 2.23
            else if degreesOfFreedom \<le> Fin 20 then Fin 2.09
            else Fin 2.04)
      else if js_eq level (Fin 0.99)
      then (if js_eq degreesOfFreedom (Fin 1) then Fin 63.66
            else if js_eq degreesOfFreedom (Fin 2) then Fin 9.92
            else if js_eq degreesOfFreedom (Fin 3) then Fin 5.84
            else if js_eq degreesOfFreedom (Fin 4) then Fin 4.60
            else if js_eq degreesOfFreedom (Fin 5) then Fin 4.03
            else if degreesOfFreedom \<le> Fin 10 then Fin 3.17
            else if degreesOfFreedom \<le> Fin 20 then Fin 2.85
            else Fin 2.75)
      else Fin 2)"

definition PA_calculateConfidenceInterval :: "jsnum list \<Rightarrow> jsnum \<Rightarrow> jsnum \<times> jsnum" where
  "PA_calculateConfidenceInterval vs level =
     (if length vs \<le> 1 then (Fin 0, Fin 0)
      else let mean = PA_calculateMean vs;
               stdDev = PA_calculateStandardDeviation vs;
               n = num (length vs);
               tValue = PA_getTValue (n - Fin 1) level;
               marginOfError = tValue * (stdDev / Math_sqrt n)
           in (mean - marginOfError, mean + marginOfError))"

section \<open>\<^verbatim>\<open>ProcessAnalytics\<close>\<close>

record ProcessAnalyticsOptions =
  pa_confidenceLevel :: "jsnum option"
  significanceThreshold :: "jsnum option"
  minCorrelationStrength :: "jsnum option"
  predictionHorizon :: "jsnum option"

text \<open>The supporting data of a recognised pattern, by kind of pattern.\<close>

datatype SupportingData =
  CyclicalData (cycleLength: nat) (autocorrelation: jsnum)
| TrendData (td_slope: jsnum) (td_rSquared: jsnum) (td_pValue: jsnum) (trendStrength: jsnum)
| StepChangeData (changePoint: nat) (beforeMean: jsnum) (afterMean: jsnum)
    (relativeChange: jsnum) (sc_pValue: jsnum)

record PatternRecognitionResult =
  patternType :: string
  description :: string
  affectedParameters :: "string list"
  confidence :: jsnum
  supportingData :: "SupportingData list"

record CorrelationResult =
  parameter1 :: string
  parameter2 :: string
  correlationCoefficient :: jsnum
  cr_pValue :: jsnum
  cr_significant :: bool
  cr_sampleSize :: nat

record PredictionResult =
  pr_parameter :: string
  currentValue :: jsnum
  predictedValue :: jsnum
  predictedChange :: jsnum
  predictedChangePercent :: jsnum
  pr_confidenceInterval :: "jsnum \<times> jsnum"
  pr_predictionHorizon :: string
  reliability :: jsnum

definition calculatePearsonCorrelation :: "(jsnum \<times> jsnum) list \<Rightarrow> jsnum" where
  "calculatePearsonCorrelation pairs =
     (if length pairs < 2 then Fin 0
      else let n = num (length pairs);
               sumX = foldl (\<lambda>s xy. s + fst xy) (Fin 0) pairs;
               sumY = foldl (\<lambda>s xy. s + snd xy) (Fin 0) pairs;
               meanX = sumX / n;
               meanY = sumY / n
           in case foldl (regression_step meanX meanY) (Fin 0, Fin 0, Fin 0) pairs of
                (numerator, denominatorX, denominatorY) \<Rightarrow>
                  let denominator = Math_sqrt (denominatorX * denominatorY)
                  in if js_eq denominator (Fin 0) then Fin 0 else numerator / denominator)"

definition calculateCorrelationPValue :: "jsnum \<Rightarrow> nat \<Rightarrow> jsnum" where
  "calculateCorrelationPValue r n =
     (if n < 3 then Fin 1
      else let tStat = r * Math_sqrt ((num n - Fin 2) / (Fin 1 - r * r))
           in PA_tDistPValue \<bar>tStat\<bar> (num n - Fin 2))"

text \<open>The pairs \<open>(parameters[i], parameters[j])\<close> with \<open>i < j\<close>, in the order of the two nested
  loops of \<^verbatim>\<open>analyzeCorrelations\<close>.\<close>

fun parameter_pairs :: "'a list \<Rightarrow> ('a \<times> 'a) list" where
  "parameter_pairs [] = []"
| "parameter_pairs (x # xs) = map (\<lambda>y. (x, y)) xs @ parameter_pairs xs"

text \<open>The body of the inner loop; \<open>None\<close> is the \<^verbatim>\<open>continue\<close>.\<close>

definition correlation_of ::
  "runtime \<Rightarrow> ProcessAnalyticsOptions \<Rightarrow> jsrecord list \<Rightarrow> string \<times> string \<Rightarrow> CorrelationResult option" where
  "correlation_of rt opts data ps =
     (case ps of (param1, param2) \<Rightarrow>
        let pairs = filter (\<lambda>(value1, value2). \<not> isNaN value1 \<and> \<not> isNaN value2)
                      (map (\<lambda>item. (Number rt (get_field item param1),
                                      Number rt (get_field item param2))) data)
        in if length pairs < 3 then None
           else let correlation = calculatePearsonCorrelation pairs;
                    pValue = calculateCorrelationPValue correlation (length pairs);
                    significant = (pValue < or_default (significanceThreshold opts) (Fin 0.05)
                       \<and> \<bar>correlation\<bar> \<ge> or_default (minCorrelationStrength opts) (Fin 0.3))
                in Some \<lparr>parameter1 = param1, parameter2 = param2,
                           correlationCoefficient = correlation, cr_pValue = pValue,
                           cr_significant = significant, cr_sampleSize = length pairs\<rparr>)"

definition analyzeCorrelations ::
  "runtime \<Rightarrow> ProcessAnalyticsOptions \<Rightarrow> jsrecord list \<Rightarrow> string list \<Rightarrow> CorrelationResult list" where
  "analyzeCorrelations rt opts data parameters =
     Array_sort (\<lambda>a b. \<bar>correlationCoefficient b\<bar> - \<bar>correlationCoefficient a\<bar>)
       (List.map_filter (correlation_of rt opts data) (parameter_pairs parameters))"

text \<open>\<^verbatim>\<open>[...data].sort((a, b) => new Date(a[timeField]).getTime() - new Date(b[timeField]).getTime())\<close>.\<close>

definition sort_by_time :: "runtime \<Rightarrow> string \<Rightarrow> jsrecord list \<Rightarrow> jsrecord list" where
  "sort_by_time rt timeField data =
     Array_sort (\<lambda>a b. DateGetTime rt (get_field a timeField)
                        - DateGetTime rt (get_field b timeField)) data"

definition detectCyclicalPattern ::
  "runtime \<Rightarrow> jsrecord list \<Rightarrow> string \<Rightarrow> PatternRecognitionResult option" where
  "detectCyclicalPattern rt sortedData parameter =
     (let vs = numeric_values rt sortedData parameter
      in if length vs < 10 then None
         else
           let maxLag = length vs div 3;
               autocorrelations = map (\<lambda>lag.
                   let mean = PA_calculateMean vs
                   in case foldl (\<lambda>(numerator, denominator) (a, b).
                                (numerator + (a - mean) * (b - mean),
                                 denominator + Math_pow2 (a - mean)))
                             (Fin 0, Fin 0) (zip (take (length vs - lag) vs) (drop lag vs)) of
                        (numerator, denominator) \<Rightarrow> numerator / denominator)
                 [1..<Suc maxLag];
               peaks = map (\<lambda>i. i + 1)
                 (filter (\<lambda>i. autocorrelations ! i > autocorrelations ! (i - 1)
                             \<and> autocorrelations ! i > autocorrelations ! (i + 1)
                             \<and> autocorrelations ! i > Fin 0.3)
                    [1..<length autocorrelations - 1])
           in case peaks of
                [] \<Rightarrow> None
              | cycleLength' # _ \<Rightarrow>
                  Some \<lparr>patternType = ''cyclical'',
                        description = ''Cyclical pattern detected in '' @ parameter
                          @ '' with approximate cycle length of ''
                          @ NumberToString rt (num cycleLength') @ '' data points'',
                        affectedParameters = [parameter],
                        confidence = Math_min (Fin 1) (autocorrelations ! (cycleLength' - 1) + Fin 0.5),
                        supportingData =
                          [CyclicalData cycleLength' (autocorrelations ! (cycleLength' - 1))]\<rparr>)"

definition detectTrendPattern ::
  "runtime \<Rightarrow> ProcessAnalyticsOptions \<Rightarrow> jsrecord list \<Rightarrow> string \<Rightarrow> PatternRecognitionResult option" where
  "detectTrendPattern rt opts sortedData parameter =
     (let vs = numeric_values rt sortedData parameter
      in if length vs < 5 then None
         else
           let xValues = map num [0..<length vs];
               regression = PA_calculateLinearRegression xValues vs;
               n = num (length vs);
               xMean = PA_calculateMean xValues;
               sumSquaredX = foldl (\<lambda>sum x. sum + Math_pow2 (x - xMean)) (Fin 0) xValues;
               residuals = map (\<lambda>(y, x). y - (slope regression * x + intercept regression))
                             (zip vs xValues);
               residualSumSquares = foldl (\<lambda>sum r. sum + r * r) (Fin 0) residuals;
               standardError = Math_sqrt (residualSumSquares / (n - Fin 2));
               slopeStandardError = standardError / Math_sqrt sumSquaredX;
               tStatistic = slope regression / slopeStandardError;
               degreesOfFreedom = n - Fin 2;
               pValue = PA_tDistPValue \<bar>tStatistic\<bar> degreesOfFreedom
           in if pValue \<ge> or_default (significanceThreshold opts) (Fin 0.05)
                 \<or> \<bar>slope regression\<bar> < Fin 0.01 * PA_calculateMean vs
              then None
              else
                let trendDirection = (if slope regression > Fin 0 then ''Increasing'' else ''Decreasing'');
                    trendStrength' = \<bar>slope regression\<bar> / PA_calculateMean vs;
                    confidence = (Fin 1 - pValue) * rSquared regression
                in Some \<lparr>patternType = ''trend'',
                           description = trendDirection @ '' trend detected in '' @ parameter,
                           affectedParameters = [parameter],
                           confidence = confidence,
                           supportingData =
                             [TrendData (slope regression) (rSquared regression) pValue trendStrength']\<rparr>)"

text \<open>One step of the scan of \<^verbatim>\<open>detectStepChangePattern\<close> over the split points: the state
  is \<open>(bestChangePoint, maxMeanDifference)\<close>, with \<open>None\<close> for the initial \<open>-1\<close>.\<close>

definition stepChange_scan :: "jsnum list \<Rightarrow> nat option \<times> jsnum \<Rightarrow> nat \<Rightarrow> nat option \<times> jsnum" where
  "stepChange_scan vs st i =
     (case st of (bestChangePoint, maxMeanDifference) \<Rightarrow>
        let segment1 = slice vs 0 i;
            segment2 = drop i vs;
            mean1 = PA_calculateMean segment1;
            mean2 = PA_calculateMean segment2;
            meanDifference = \<bar>mean2 - mean1\<bar>
        in if meanDifference > maxMeanDifference then (Some i, meanDifference)
           else (bestChangePoint, maxMeanDifference))"

definition detectStepChangePattern ::
  "runtime \<Rightarrow> ProcessAnalyticsOptions \<Rightarrow> jsrecord list \<Rightarrow> string \<Rightarrow> PatternRecognitionResult option" where
  "detectStepChangePattern rt opts sortedData parameter =
     (let vs = numeric_values rt sortedData parameter
      in if length vs < 10 then None
         else
           let minSegmentSize = max 3 (length vs div 10);
               scan = foldl (stepChange_scan vs) (None, Fin 0)
                        [minSegmentSize..<Suc (length vs - minSegmentSize)]
           in case fst scan of
                None \<Rightarrow> None
              | Some bestChangePoint \<Rightarrow>
                  let segment1 = slice vs 0 bestChangePoint;
                      segment2 = drop bestChangePoint vs;
                      mean1 = PA_calculateMean segment1;
                      mean2 = PA_calculateMean segment2;
                      stdDev1 = PA_calculateStandardDeviation segment1;
                      stdDev2 = PA_calculateStandardDeviation segment2;
                      pooledVariance =
                        ((num (length segment1) - Fin 1) * Math_pow2 stdDev1 +
                         (num (length segment2) - Fin 1) * Math_pow2 stdDev2) /
                        (num (length segment1) + num (length segment2) - Fin 2);
                      standardError = Math_sqrt (pooledVariance *
                        (Fin 1 / num (length segment1) + Fin 1 / num (length segment2)));
                      tStat = \<bar>mean2 - mean1\<bar> / standardError;
                      df = num (length segment1) + num (length segment2) - Fin 2;
                      pValue = PA_tDistPValue tStat df
                  in if pValue \<ge> or_default (significanceThreshold opts) (Fin 0.05) then None
                     else
                       let relativeChange = (mean2 - mean1) / mean1;
                           confidence = (Fin 1 - pValue) * Math_min (Fin 1) (\<bar>relativeChange\<bar> * Fin 5)
                       in Some \<lparr>patternType = ''step_change'',
                                description = ''Step change detected in '' @ parameter
                                  @ '' at data point '' @ NumberToString rt (num bestChangePoint),
                                affectedParameters = [parameter],
                                confidence = confidence,
                                supportingData =
                                  [StepChangeData bestChangePoint mean1 mean2
                                     (relativeChange * Fin 100) pValue]\<rparr>)"

definition recognizePatterns ::
  "runtime \<Rightarrow> ProcessAnalyticsOptions \<Rightarrow> jsrecord list \<Rightarrow> string \<Rightarrow> string list
     \<Rightarrow> PatternRecognitionResult list" where
  "recognizePatterns rt opts data timeField parameters =
     (let sortedData = sort_by_time rt timeField data;
          cyclical = List.map_filter (detectCyclicalPattern rt sortedData) parameters;
          trends = List.map_filter (detectTrendPattern rt opts sortedData) parameters;
          steps = List.map_filter (detectStepChangePattern rt opts sortedData) parameters;
          correlations = analyzeCorrelations rt opts data parameters;
          significantCorrelations = filter cr_significant correlations
      in cyclical @ trends @ steps @
         map (\<lambda>corr.
               \<lparr>patternType = ''correlation'',
                description = ''Strong ''
                  @ (if correlationCoefficient corr > Fin 0 then ''positive'' else ''negative'')
                  @ '' correlation between '' @ parameter1 corr @ '' and '' @ parameter2 corr,
                affectedParameters = [parameter1 corr, parameter2 corr],
                confidence = Fin 1 - cr_pValue corr,
                supportingData = []\<rparr>)
           significantCorrelations)"

definition calculatePredictionInterval ::
  "jsnum list \<Rightarrow> jsnum list \<Rightarrow> regression \<Rightarrow> jsnum \<Rightarrow> jsnum \<Rightarrow> jsnum \<times> jsnum" where
  "calculatePredictionInterval x y regression predictX level =
     (if length x \<noteq> length y \<or> length x < 3 then (Fin 0, Fin 0)
      else let n = num (length x);
               xMean = PA_calculateMean x;
               predictedY = slope regression * predictX + intercept regression;
               residuals = map (\<lambda>(yValue, xValue). yValue - (slope regression * xValue + intercept regression))
                             (zip y x);
               residualSumSquares = foldl (\<lambda>sum r. sum + r * r) (Fin 0) residuals;
               standardError = Math_sqrt (residualSumSquares / (n - Fin 2));
               sumSquaredX = foldl (\<lambda>sum xValue. sum + Math_pow2 (xValue - xMean)) (Fin 0) x;
               tValue = PA_getTValue (n - Fin 2) level;
               predictionWidth = tValue * standardError * Math_sqrt
                 (Fin 1 + Fin 1 / n + Math_pow2 (predictX - xMean) / sumSquaredX)
           in (predictedY - predictionWidth, predictedY + predictionWidth))"

text \<open>\<^verbatim>\<open>Math.round\<close>: the nearest integer, a half rounded up.\<close>

fun Math_round :: "jsnum \<Rightarrow> jsnum" where
  "Math_round (Fin a) = Fin (of_int \<lfloor>a + 1 / 2\<rfloor>)"
| "Math_round a = a"

text \<open>The body of the loop of \<^verbatim>\<open>generatePredictions\<close> over the parameters; \<open>None\<close> is the
  early \<^verbatim>\<open>return\<close> for fewer than 5 points. A point is a pair of the time value of the
  record's date and the value; the points with an invalid date are left out.\<close>

definition prediction_of ::
  "runtime \<Rightarrow> ProcessAnalyticsOptions \<Rightarrow> jsrecord list \<Rightarrow> string \<Rightarrow> string \<Rightarrow> PredictionResult option" where
  "prediction_of rt opts sortedData timeField param =
     (let timeSeriesData = filter (\<lambda>(timestamp, v). \<not> isNaN v \<and> \<not> isNaN timestamp)
            (map (\<lambda>item. (DateGetTime rt (get_field item timeField),
                            Number rt (get_field item param))) sortedData)
      in if length timeSeriesData < 5 then None
         else
           let currentValue = snd (last timeSeriesData);
               firstTimestamp = fst (hd timeSeriesData);
               xValues = map (\<lambda>(timestamp, v). (timestamp - firstTimestamp)
                                / Fin (1000 * 60 * 60 * 24)) timeSeriesData;
               yValues = map snd timeSeriesData;
               regression = PA_calculateLinearRegression xValues yValues;
               predictionHorizonDays = or_default (predictionHorizon opts) (Fin 3)
                  * (last xValues - hd xValues) / num (length xValues);
               lastX = last xValues;
               predictX = lastX + predictionHorizonDays;
               predictedValue = slope regression * predictX + intercept regression;
               predictionInterval = calculatePredictionInterval xValues yValues regression predictX
                  (or_default (pa_confidenceLevel opts) (Fin 0.95));
               predictedChange = predictedValue - currentValue;
               predictedChangePercent = (predictedChange / currentValue) * Fin 100;
               reliability = rSquared regression
                  * (Fin 1 - Fin 1 / Math_sqrt (num (length timeSeriesData)));
               predictionHorizonText = NumberToString rt (Math_round predictionHorizonDays) @ '' days''
           in Some \<lparr>pr_parameter = param, currentValue = currentValue,
                      predictedValue = predictedValue, predictedChange = predictedChange,
                      predictedChangePercent = predictedChangePercent,
                      pr_confidenceInterval = predictionInterval,
                      pr_predictionHorizon = predictionHorizonText,
                      reliability = reliability\<rparr>)"

definition generatePredictions ::
  "runtime \<Rightarrow> ProcessAnalyticsOptions \<Rightarrow> jsrecord list \<Rightarrow> string \<Rightarrow> string list
     \<Rightarrow> PredictionResult list" where
  "generatePredictions rt opts data timeField parameters =
     List.map_filter (prediction_of rt opts (sort_by_time rt timeField data) timeField) parameters"

text \<open>The entries of \<^verbatim>\<open>identifyBestPerformers\<close>: the statistics of a process type, and the
  same extended by the rank (\<^verbatim>\<open>{...process, rank, ...}\<close>).\<close>

record Performance =
  processType :: string
  bp_average :: jsnum
  bp_stdDev :: jsnum
  bp_confidenceInterval :: "jsnum \<times> jsnum"
  bp_sampleSize :: nat

record RankedPerformance = Performance +
  rank :: nat
  significantlyBetterCount :: nat
  percentileBetter :: jsnum

text \<open>The body of the \<^verbatim>\<open>map\<close> over the entries of the grouping object; \<open>None\<close> is the
  \<^verbatim>\<open>null\<close> that \<^verbatim>\<open>filter(Boolean)\<close> removes.\<close>

definition performance_of ::
  "runtime \<Rightarrow> ProcessAnalyticsOptions \<Rightarrow> string \<Rightarrow> string \<times> jsrecord list \<Rightarrow> Performance option" where
  "performance_of rt opts performanceField entry =
     (case entry of (processType', items) \<Rightarrow>
        let performanceValues = numeric_values rt items performanceField
        in if length performanceValues < 3 then None
           else Some \<lparr>processType = processType',
                      bp_average = PA_calculateMean performanceValues,
                      bp_stdDev = PA_calculateStandardDeviation performanceValues,
                      bp_confidenceInterval = PA_calculateConfidenceInterval performanceValues
                         (or_default (pa_confidenceLevel opts) (Fin 0.95)),
                      bp_sampleSize = length performanceValues\<rparr>)"

text \<open>The comparison of a process with another one: the pair \<open>(better, significant)\<close>.\<close>

definition compare_processes ::
  "ProcessAnalyticsOptions \<Rightarrow> bool \<Rightarrow> Performance \<Rightarrow> Performance \<Rightarrow> bool \<times> bool" where
  "compare_processes opts higherIsBetter process otherProcess =
     (let diff = bp_average process - bp_average otherProcess;
          direction = (if higherIsBetter then diff > Fin 0 else diff < Fin 0)
      in if \<not> direction then (False, False)
         else
           let pooledVariance =
                 ((num (bp_sampleSize process) - Fin 1) * Math_pow2 (bp_stdDev process) +
                  (num (bp_sampleSize otherProcess) - Fin 1) * Math_pow2 (bp_stdDev otherProcess)) /
                 (num (bp_sampleSize process) + num (bp_sampleSize otherProcess) - Fin 2);
               standardError = Math_sqrt (pooledVariance *
                 (Fin 1 / num (bp_sampleSize process) + Fin 1 / num (bp_sampleSize otherProcess)));
               tStat = \<bar>diff\<bar> / standardError;
               df = num (bp_sampleSize process) + num (bp_sampleSize otherProcess) - Fin 2;
               pValue = PA_tDistPValue tStat df
           in (True, pValue < or_default (significanceThreshold opts) (Fin 0.05)))"

text \<open>The body of the \<^verbatim>\<open>map\<close> over the sorted performances.\<close>

definition rank_process ::
  "ProcessAnalyticsOptions \<Rightarrow> bool \<Rightarrow> Performance list \<Rightarrow> nat \<times> Performance \<Rightarrow> RankedPerformance" where
  "rank_process opts higherIsBetter sortedPerformance entry =
     (case entry of (index, process) \<Rightarrow>
        let others = map snd (filter (\<lambda>(i, p). i \<noteq> index) (enumerate 0 sortedPerformance));
            significantlyBetter = map (compare_processes opts higherIsBetter process) others;
            significantlyBetterCount =
              length (filter (\<lambda>(better, significant). better \<and> significant) significantlyBetter)
        in Performance.extend process
             (RankedPerformance.fields (index + 1) significantlyBetterCount
                ((num significantlyBetterCount / num (max 1 (length sortedPerformance - 1))) * Fin 100)))"

definition identifyBestPerformers ::
  "runtime \<Rightarrow> ProcessAnalyticsOptions \<Rightarrow> jsrecord list \<Rightarrow> string \<Rightarrow> string \<Rightarrow> bool
     \<Rightarrow> js_error + RankedPerformance list" where
  "identifyBestPerformers rt opts data processTypeField performanceField higherIsBetter =
     (case group_by rt processTypeField data [] of
        Inl e \<Rightarrow> Inl e
      | Inr processByType \<Rightarrow>
          let processPerformance =
                List.map_filter (performance_of rt opts performanceField) (Object_entries processByType);
              sortedPerformance = Array_sort
                (\<lambda>a b. if higherIsBetter then bp_average b - bp_average a
                        else bp_average a - bp_average b) processPerformance
          in Inr (map (rank_process opts higherIsBetter sortedPerformance)
                    (enumerate 0 sortedPerformance)))"

section \<open>\<^verbatim>\<open>AnalyticsService\<close>\<close>

text \<open>The state of a service instance: its options and its two engines, each of which is
  its own options. A method is modelled as a function of the state before the call to
  the result and the state after the call.\<close>

record AnalyticsOptions =
  as_confidenceLevel :: "jsnum option"
  as_outlierDetection :: "bool option"
  as_outlierThreshold :: "jsnum option"
  as_significanceThreshold :: "jsnum option"
  as_minCorrelationStrength :: "jsnum option"
  as_predictionHorizon :: "jsnum option"

record AnalyticsService =
  kpiCalculator :: KPICalculatorOptions
  processAnalytics :: ProcessAnalyticsOptions
  options :: AnalyticsOptions

record DashboardConfig =
  cfg_processTypeField :: string
  cfg_successField :: string
  cfg_successValue :: jsval
  cfg_durationField :: string
  cfg_timeField :: string
  cfg_parameterFields :: "string list"

record ProcessPerformanceResult =
  pp_processType :: string
  pp_rft :: RFTResult
  pp_duration :: ProcessDurationResult
  pp_rank :: nat
  pp_significantlyBetter :: bool
  pp_percentileBetter :: jsnum

record AnalyticsDashboardData =
  overallRFT :: RFTResult
  processPerformance :: "ProcessPerformanceResult list"
  trends :: TrendResult
  patterns :: "PatternRecognitionResult list"
  correlations :: "CorrelationResult list"
  predictions :: "PredictionResult list"

text \<open>The body of the loop over the entries of the grouping object; \<open>None\<close> is the early
  \<^verbatim>\<open>return\<close> for a group of fewer than 3 records.\<close>

definition process_performance_of ::
  "runtime \<Rightarrow> AnalyticsService \<Rightarrow> DashboardConfig \<Rightarrow> string \<times> jsrecord list
     \<Rightarrow> ProcessPerformanceResult option" where
  "process_performance_of rt svc config entry =
     (case entry of (processType', items) \<Rightarrow>
        if length items < 3 then None
        else Some \<lparr>pp_processType = processType',
                   pp_rft = calculateRFT rt (kpiCalculator svc) items
                              (cfg_successField config) (cfg_successValue config),
                   pp_duration = calculateProcessDuration rt (kpiCalculator svc) items
                              (cfg_durationField config),
                   pp_rank = 0, pp_significantlyBetter = False, pp_percentileBetter = Fin 0\<rparr>)"

text \<open>The update of one entry with the ranking of \<^verbatim>\<open>identifyBestPerformers\<close>.\<close>

definition update_ranking :: "RankedPerformance list \<Rightarrow> ProcessPerformanceResult \<Rightarrow> ProcessPerformanceResult" where
  "update_ranking bestPerformers process =
     (case find (\<lambda>bp. processType bp = pp_processType process) bestPerformers of
        None \<Rightarrow> process
      | Some bestPerformer \<Rightarrow>
          process\<lparr>pp_rank := rank bestPerformer,
                  pp_significantlyBetter := (significantlyBetterCount bestPerformer > 0),
                  pp_percentileBetter := percentileBetter bestPerformer\<rparr>)"

definition generateDashboardAnalytics ::
  "runtime \<Rightarrow> AnalyticsService \<Rightarrow> jsrecord list \<Rightarrow> DashboardConfig
     \<Rightarrow> (js_error + AnalyticsDashboardData) \<times> AnalyticsService" where
  "generateDashboardAnalytics rt svc data config =
     (let overall = calculateRFT rt (kpiCalculator svc) data (cfg_successField config) (cfg_successValue config)
      in case group_by rt (cfg_processTypeField config) data [] of
           Inl e \<Rightarrow> (Inl e, svc)
         | Inr processByType \<Rightarrow>
             let performance = List.map_filter (process_performance_of rt svc config)
                                 (Object_entries processByType)
             in case identifyBestPerformers rt (processAnalytics svc) data
                       (cfg_processTypeField config) (cfg_successField config) True of
                  Inl e \<Rightarrow> (Inl e, svc)
                | Inr bestPerformers \<Rightarrow>
                    let ranked = Array_sort (\<lambda>a b. num (pp_rank a) - num (pp_rank b))
                                   (map (update_ranking bestPerformers) performance)
                    in (Inr \<lparr>overallRFT = overall,
                             processPerformance = ranked,
                             trends = identifyTrends rt (kpiCalculator svc) data
                                        (cfg_timeField config) (cfg_successField config) 5,
                             patterns = recognizePatterns rt (processAnalytics svc) data
                                        (cfg_timeField config) (cfg_parameterFields config),
                             correlations = analyzeCorrelations rt (processAnalytics svc) data
                                        (cfg_parameterFields config),
                             predictions = generatePredictions rt (processAnalytics svc) data
                                        (cfg_timeField config) (cfg_parameterFields config)\<rparr>,
                        svc))"

section \<open>Notions of the specification and example inputs\<close>

text \<open>The success test in the words of the specification: a boolean success value is
  compared with the boolean coercion of the field, a string with the stringified field
  regardless of case, anything else by strict equality.\<close>

definition success_by_matched_type :: "runtime \<Rightarrow> jsval \<Rightarrow> jsval \<Rightarrow> bool" where
  "success_by_matched_type rt successValue v =
     (case successValue of
        JBool b \<Rightarrow> Boolean v = b
      | JStr s \<Rightarrow> toLowerCase rt (String rt v) = toLowerCase rt s
      | _ \<Rightarrow> strict_equals v successValue)"

text \<open>A runtime and the default options, for the examples. The examples convert no
  string; the time value of a date built from a number of milliseconds is that number.\<close>

definition example_runtime :: runtime where
  "example_runtime = \<lparr>StringToNumber = (\<lambda>s. NaN), NumberToString = (\<lambda>n. ''NaN''),
     toLowerCase = (\<lambda>s. s),
     DateGetTime = (\<lambda>v. case v of JNum t \<Rightarrow> t | _ \<Rightarrow> NaN)\<rparr>"

definition default_KPI_options :: KPICalculatorOptions where
  "default_KPI_options = \<lparr>confidenceLevel = Some (Fin 0.95), outlierDetection = Some True,
     outlierThreshold = Some (Fin 1.5)\<rparr>"

text \<open>Five records with the durations of the repository's test data.\<close>

definition duration_records :: "jsrecord list" where
  "duration_records = map (\<lambda>d. [''Duration'' \<mapsto> JNum (Fin d)]) [4.5, 4.2, 5.1, 3.8, 4.3]"

text \<open>The property of a Wilson interval \<open>(lo, hi)\<close> for \<open>k\<close> successes out of \<open>n\<close>:
  \<open>(0, 0)\<close> for \<open>n = 0\<close>, and \<open>0 \<le> lo \<le> k/n \<le> hi \<le> 1\<close> otherwise.\<close>

definition wilson_claim :: "nat \<Rightarrow> nat \<Rightarrow> jsnum \<times> jsnum \<Rightarrow> bool" where
  "wilson_claim k n iv =
     (case iv of (lo, hi) \<Rightarrow>
        if n = 0 then lo = Fin 0 \<and> hi = Fin 0
        else Fin 0 \<le> lo \<and> lo \<le> num k / num n \<and> num k / num n \<le> hi \<and> hi \<le> Fin 1)"

text \<open>The interval of \<^verbatim>\<open>calculateWilsonInterval\<close> on finite arguments, over the reals.\<close>

definition wilson_center :: "real \<Rightarrow> real \<Rightarrow> real \<Rightarrow> real" where
  "wilson_center p n z = (p + z * z / (2 * n)) / (1 + z * z / n)"

definition wilson_adjustment :: "real \<Rightarrow> real \<Rightarrow> real \<Rightarrow> real" where
  "wilson_adjustment p n z =
     z * sqrt ((p * (1 - p) + z * z / (4 * n)) / n) / (1 + z * z / n)"

text \<open>Five records out of time order, with a value that grows by one per time step.\<close>

definition trend_records :: "jsrecord list" where
  "trend_records = map (\<lambda>(t, v). [''Time'' \<mapsto> JNum (Fin t), ''Value'' \<mapsto> JNum (Fin v)])
     [(3, 3), (1, 1), (2, 2), (5, 5), (4, 4)]"

text \<open>The default options of \<^verbatim>\<open>ProcessAnalytics\<close>, and a series of twenty values with a shift
  of the mean from 10 to 20 at index 10.\<close>

definition default_PA_options :: ProcessAnalyticsOptions where
  "default_PA_options = \<lparr>pa_confidenceLevel = Some (Fin 0.95), significanceThreshold = Some (Fin 0.05),
     minCorrelationStrength = Some (Fin 0.3), predictionHorizon = Some (Fin 3)\<rparr>"

definition step_series :: "jsnum list" where
  "step_series = [Fin 10, Fin 10, Fin 10, Fin 10, Fin 10, Fin 10, Fin 10, Fin 10, Fin 10, Fin 10,
                  Fin 20, Fin 20, Fin 20, Fin 20, Fin 20, Fin 20, Fin 20, Fin 20, Fin 20, Fin 20]"

definition step_records :: "jsrecord list" where
  "step_records = map (\<lambda>v. [''Value'' \<mapsto> JNum v]) step_series"

text \<open>Six records of the process types \<open>2\<close> and \<open>1\<close>, in this order, all with the score 1.\<close>

definition tie_records :: "jsrecord list" where
  "tie_records = map (\<lambda>t. [''Type'' \<mapsto> JStr t, ''Score'' \<mapsto> JNum (Fin 1)])
     [''2'', ''2'', ''2'', ''1'', ''1'', ''1'']"

text \<open>The process types of a data set in the order of \<^verbatim>\<open>Object.entries\<close> of the grouping
  object (the names of first occurrence, array indices first), the numeric performance
  values of a process type, and the groups.\<close>

fun first_occurrences :: "'a list \<Rightarrow> 'a list" where
  "first_occurrences [] = []"
| "first_occurrences (x # xs) = x # filter (\<lambda>y. y \<noteq> x) (first_occurrences xs)"

definition group_names :: "runtime \<Rightarrow> string \<Rightarrow> jsrecord list \<Rightarrow> string list" where
  "group_names rt field data = own_keys_order (first_occurrences (map (group_key rt field) data))"

definition group_values :: "runtime \<Rightarrow> string \<Rightarrow> string \<Rightarrow> jsrecord list \<Rightarrow> string \<Rightarrow> jsnum list" where
  "group_values rt field performanceField data k =
     numeric_values rt (filter (\<lambda>item. group_key rt field item = k) data) performanceField"

definition process_groups :: "runtime \<Rightarrow> string \<Rightarrow> jsrecord list \<Rightarrow> (string \<times> jsrecord list) list" where
  "process_groups rt field data =
     map (\<lambda>k. (k, filter (\<lambda>item. group_key rt field item = k) data)) (group_names rt field data)"

text \<open>The tie rule in the words of the specification: of two ranked groups with equal
  means, the one that appears first in the data has the smaller rank.\<close>

definition first_appearance :: "runtime \<Rightarrow> string \<Rightarrow> jsrecord list \<Rightarrow> string \<Rightarrow> nat" where
  "first_appearance rt field data k = length (takeWhile (\<lambda>item. group_key rt field item \<noteq> k) data)"

definition ties_in_insertion_order ::
  "runtime \<Rightarrow> string \<Rightarrow> jsrecord list \<Rightarrow> RankedPerformance list \<Rightarrow> bool" where
  "ties_in_insertion_order rt field data results =
     (\<forall>p \<in> set results. \<forall>q \<in> set results.
        bp_average p = bp_average q
        \<and> first_appearance rt field data (processType p) < first_appearance rt field data (processType q)
        \<longrightarrow> rank p < rank q)"

text \<open>The quantities of the scan of \<^verbatim>\<open>detectStepChangePattern\<close> on a series of finite
  values, over the reals: the mean of a segment (0 for the empty one, as
  \<^verbatim>\<open>calculateMean\<close>), the sum of the squared deviations from the mean that
  \<^verbatim>\<open>calculateStandardDeviation\<close> divides by \<open>n - 1\<close>, and the absolute difference of the
  means of the two segments at a split point.\<close>

definition real_mean :: "real list \<Rightarrow> real" where
  "real_mean rs = (if rs = [] then 0 else sum_list rs / real (length rs))"

definition sum_sq_dev :: "real list \<Rightarrow> real" where
  "sum_sq_dev rs = sum_list (map (\<lambda>v. (v - real_mean rs) * (v - real_mean rs)) rs)"

definition mean_difference :: "real list \<Rightarrow> nat \<Rightarrow> real" where
  "mean_difference rs i = \<bar>real_mean (drop i rs) - real_mean (take i rs)\<bar>"

text \<open>A series as in scenario D with noise: ten values within \<open>10 \<plusminus> 0.5\<close>, then ten values
  within \<open>20 \<plusminus> 0.5\<close>.\<close>

definition noisy_low :: "real list" where
  "noisy_low = [9.6, 10.4, 9.8, 10.2, 10, 9.5, 10.5, 10.1, 9.9, 10.3]"

definition noisy_high :: "real list" where
  "noisy_high = [19.7, 20.3, 20.5, 19.5, 20, 20.2, 19.8, 20.4, 19.6, 20.1]"

definition noisy_step_records :: "jsrecord list" where
  "noisy_step_records = map (\<lambda>v. [''Value'' \<mapsto> JNum (Fin v)]) (noisy_low @ noisy_high)"

section \<open>Properties\<close>

subsection \<open>Arithmetic on finite numbers\<close>

lemma minus_jsnum_simps [simp]:
  "NaN - b = NaN" "a - NaN = NaN" "Fin x - Fin y = Fin (x - y)"
  "PInf - PInf = NaN" "NInf - NInf = NaN" "PInf - NInf = PInf" "NInf - PInf = NInf"
  "PInf - Fin y = PInf" "NInf - Fin y = NInf" "Fin x - PInf = NInf" "Fin x - NInf = PInf"
  by (cases a; cases b; simp add: minus_jsnum_def)+

lemma num_simps [simp]: "num n = Fin (real n)"
  by (simp add: num_def)

subsection \<open>The duplicated helpers\<close>

text \<open>
  C9. The private helpers \<^verbatim>\<open>tDistPValue\<close> and \<^verbatim>\<open>normalCDF\<close> of \<^verbatim>\<open>KPICalculator\<close> and
  of \<^verbatim>\<open>ProcessAnalytics\<close> are the same functions: for every t-statistic and every
  number of degrees of freedom the two p-values agree, and for every argument the two
  normal distribution functions agree.
\<close>

theorem tDistPValue_normalCDF_agree:
  "KPI_tDistPValue t df = PA_tDistPValue t df \<and> KPI_normalCDF x = PA_normalCDF x"
proof -
  have cdf: "KPI_normalCDF = PA_normalCDF"
    by (rule ext) (simp only: KPI_normalCDF_def PA_normalCDF_def)
  show ?thesis
    by (simp only: KPI_tDistPValue_def PA_tDistPValue_def cdf)
qed

subsection \<open>Linear regression on a degenerate abscissa\<close>

text \<open>
  C4. On the equal-length lists \<open>x = [1, 1]\<close> and \<open>y = [1, 2]\<close>, whose abscissae are all
  equal, both copies of \<^verbatim>\<open>calculateLinearRegression\<close> divide zero by zero: the slope,
  the intercept and the coefficient of determination are \<open>NaN\<close>, not zero.
\<close>

theorem calculateLinearRegression_degenerate_NaN:
  "KPI_calculateLinearRegression [Fin 1, Fin 1] [Fin 1, Fin 2]
     = \<lparr>slope = NaN, intercept = NaN, rSquared = NaN\<rparr>
   \<and> PA_calculateLinearRegression [Fin 1, Fin 1] [Fin 1, Fin 2]
     = \<lparr>slope = NaN, intercept = NaN, rSquared = NaN\<rparr>"
  by (simp add: KPI_calculateLinearRegression_def PA_calculateLinearRegression_def
      KPI_calculateMean_def PA_calculateMean_def sum_reduce_def regression_step_def
      Math_pow2_def Let_def)

theorem calculateLinearRegression_degenerate_not_zero:
  "KPI_calculateLinearRegression [Fin 1, Fin 1] [Fin 1, Fin 2]
     \<noteq> \<lparr>slope = Fin 0, intercept = Fin 0, rSquared = Fin 0\<rparr>
   \<and> PA_calculateLinearRegression [Fin 1, Fin 1] [Fin 1, Fin 2]
     \<noteq> \<lparr>slope = Fin 0, intercept = Fin 0, rSquared = Fin 0\<rparr>"
  using calculateLinearRegression_degenerate_NaN by simp

lemma isSuccess_matched_type:
  "isSuccess rt f sv item = success_by_matched_type rt sv (get_field item f)"
  by (cases sv) (auto simp: isSuccess_def success_by_matched_type_def Let_def)

lemma length_filter_map: "length (filter (\<lambda>x. P (g x)) xs) = length (filter P (map g xs))"
  by (induction xs) auto

subsection \<open>Right first time\<close>

text \<open>
  C2. \<^verbatim>\<open>calculateRFT\<close> counts a record as a success by the matched type of the success
  value (boolean coercion for a boolean, the lower-cased stringified field for a string,
  strict equality otherwise); the rate is the number of successes over the number of
  records, \<open>0\<close> for no records, and the sample size is the number of records. For five
  records whose success field holds true, true, false, true, true and the success value
  \<open>true\<close>, the rate is \<open>0.8\<close> and the sample size \<open>5\<close>.
\<close>

theorem calculateRFT_matched_type:
  "rate (calculateRFT rt opts data successField successValue) =
     (if data = [] then Fin 0
      else Fin (real (length (filter (\<lambda>item. success_by_matched_type rt successValue
                  (get_field item successField)) data)) / real (length data)))
   \<and> sampleSize (calculateRFT rt opts data successField successValue) = length data
   \<and> (map (\<lambda>item. get_field item successField) data
         = [JBool True, JBool True, JBool False, JBool True, JBool True]
       \<longrightarrow> rate (calculateRFT rt opts data successField (JBool True)) = Fin 0.8
         \<and> sampleSize (calculateRFT rt opts data successField (JBool True)) = 5)"
proof -
  have count: "length (filter (isSuccess rt successField sv) data)
      = length (filter (success_by_matched_type rt sv) (map (\<lambda>item. get_field item successField) data))" for sv
    unfolding isSuccess_matched_type[abs_def] by (rule length_filter_map)
  have len: "length data = length (map (\<lambda>item. get_field item successField) data)"
    by simp
  have general: "rate (calculateRFT rt opts data successField successValue) =
     (if data = [] then Fin 0
      else Fin (real (length (filter (\<lambda>item. success_by_matched_type rt successValue
                  (get_field item successField)) data)) / real (length data)))"
    by (simp add: calculateRFT_def Let_def isSuccess_matched_type[abs_def])
  have size: "sampleSize (calculateRFT rt opts data successField sv) = length data" for sv
    by (simp add: calculateRFT_def Let_def)
  have scenario: "rate (calculateRFT rt opts data successField (JBool True)) = Fin 0.8
         \<and> sampleSize (calculateRFT rt opts data successField (JBool True)) = 5"
    if h: "map (\<lambda>item. get_field item successField) data
         = [JBool True, JBool True, JBool False, JBool True, JBool True]"
  proof -
    have l: "length data = 5" using len h by simp
    have c: "length (filter (isSuccess rt successField (JBool True)) data) = 4"
      by (simp add: count h success_by_matched_type_def)
    show ?thesis using l c by (simp add: calculateRFT_def Let_def)
  qed
  show ?thesis using general size scenario by blast
qed

theorem calculateRFT_scenario_A:
  "rate (calculateRFT example_runtime default_KPI_options
      [[''Success'' \<mapsto> JBool True], [''Success'' \<mapsto> JBool True], [''Success'' \<mapsto> JBool False],
       [''Success'' \<mapsto> JBool True], [''Success'' \<mapsto> JBool True]] ''Success'' (JBool True)) = Fin 0.8
   \<and> sampleSize (calculateRFT example_runtime default_KPI_options
      [[''Success'' \<mapsto> JBool True], [''Success'' \<mapsto> JBool True], [''Success'' \<mapsto> JBool False],
       [''Success'' \<mapsto> JBool True], [''Success'' \<mapsto> JBool True]] ''Success'' (JBool True)) = 5"
proof -
  have h: "map (\<lambda>item. get_field item ''Success'')
      [[''Success'' \<mapsto> JBool True], [''Success'' \<mapsto> JBool True], [''Success'' \<mapsto> JBool False],
       [''Success'' \<mapsto> JBool True], [''Success'' \<mapsto> JBool True]]
     = [JBool True, JBool True, JBool False, JBool True, JBool True]"
    by (simp add: get_field_def)
  show ?thesis
    by (rule calculateRFT_matched_type [of example_runtime default_KPI_options _ "''Success''" "JBool True",
          THEN conjunct2, THEN conjunct2, THEN mp, OF h])
qed

subsection \<open>Sorting, quartiles and outliers\<close>

lemma set_sort_insert [simp]: "set (sort_insert cmp x ys) = insert x (set ys)"
  by (induction ys) auto

lemma length_sort_insert [simp]: "length (sort_insert cmp x ys) = Suc (length ys)"
  by (induction ys) auto

lemma set_Array_sort [simp]: "set (Array_sort cmp xs) = set xs"
  by (induction xs) (auto simp: Array_sort_def)

lemma length_Array_sort [simp]: "length (Array_sort cmp xs) = length xs"
  by (induction xs) (auto simp: Array_sort_def)

lemma diff_pos_iff: "a \<noteq> NaN \<Longrightarrow> b \<noteq> NaN \<Longrightarrow> (a - b > Fin 0) = (b < a)"
  by (cases a; cases b) auto

lemma jsnum_le_total: "a \<noteq> NaN \<Longrightarrow> b \<noteq> NaN \<Longrightarrow> \<not> b < a \<Longrightarrow> a \<le> b"
  by (cases a; cases b) auto

lemma jsnum_less_imp_le: "(a::jsnum) < b \<Longrightarrow> a \<le> b"
  by (cases a; cases b) auto

lemma jsnum_le_refl: "a \<noteq> NaN \<Longrightarrow> (a::jsnum) \<le> a"
  by (cases a) auto

lemma jsnum_le_trans: "(a::jsnum) \<le> b \<Longrightarrow> b \<le> c \<Longrightarrow> a \<le> c"
  by (cases a; cases b; cases c) auto

lemma sorted_sort_insert:
  "x \<noteq> NaN \<Longrightarrow> NaN \<notin> set ys \<Longrightarrow> sorted_wrt (\<le>) ys \<Longrightarrow> sorted_wrt (\<le>) (sort_insert (\<lambda>a b. a - b) x ys)"
proof (induction ys)
  case Nil
  then show ?case by simp
next
  case (Cons y ys)
  show ?case
  proof (cases "y < x")
    case True
    then have "y \<le> x" by (rule jsnum_less_imp_le)
    with Cons True show ?thesis by (auto simp: diff_pos_iff)
  next
    case False
    with Cons have xy: "x \<le> y" by (auto intro: jsnum_le_total)
    with Cons have "\<forall>z\<in>set ys. x \<le> z" by (auto intro: jsnum_le_trans)
    with Cons False xy show ?thesis by (auto simp: diff_pos_iff)
  qed
qed

lemma sorted_Array_sort:
  "NaN \<notin> set xs \<Longrightarrow> sorted_wrt (\<le>) (Array_sort (\<lambda>a b. a - b) xs)"
proof (induction xs)
  case Nil
  then show ?case by (simp add: Array_sort_def)
next
  case (Cons x xs)
  then have "sorted_wrt (\<le>) (Array_sort (\<lambda>a b. a - b) xs)" by simp
  moreover have "NaN \<notin> set (Array_sort (\<lambda>a b. a - b) xs)" using Cons by simp
  ultimately have "sorted_wrt (\<le>) (sort_insert (\<lambda>a b. a - b) x (Array_sort (\<lambda>a b. a - b) xs))"
    using Cons.prems by (intro sorted_sort_insert) auto
  then show ?case by (simp add: Array_sort_def)
qed

lemma real_quartile_bounds:
  fixes a b k :: real
  assumes "a \<le> b" "0 \<le> k"
  shows "\<not> a < a - k * (b - a)" "\<not> b + k * (b - a) < a"
proof -
  have "0 \<le> k * (b - a)" using assms by (simp add: mult_nonneg_nonneg)
  then show "\<not> a < a - k * (b - a)" "\<not> b + k * (b - a) < a" using assms by linarith+
qed

lemma quartile_within_bounds:
  "q1 \<noteq> NaN \<Longrightarrow> q3 \<noteq> NaN \<Longrightarrow> q1 \<le> q3 \<Longrightarrow> k \<ge> Fin 0 \<Longrightarrow>
   \<not> (q1 < q1 - k * (q3 - q1) \<or> q1 > q3 + k * (q3 - q1))"
  by (cases q1; cases q3; cases k) (auto simp: real_quartile_bounds)


lemma quartile_indices:
  "0 < n \<Longrightarrow> nat \<lfloor>real n * 0.25\<rfloor> \<le> nat \<lfloor>real n * 0.75\<rfloor> \<and> nat \<lfloor>real n * 0.75\<rfloor> < n"
proof -
  assume n: "0 < n"
  define a where "a = \<lfloor>real n * 0.25\<rfloor>"
  define b where "b = \<lfloor>real n * 0.75\<rfloor>"
  have ab: "a \<le> b" unfolding a_def b_def by (intro floor_mono) simp
  have "real n * 0.75 < real n" using n by simp
  then have bn: "b < int n" unfolding b_def by (simp add: floor_less_iff)
  have "nat a \<le> nat b \<and> nat b < n" using ab bn n by linarith
  then show ?thesis unfolding a_def b_def .
qed

lemma sorted_nth_le:
  "sorted_wrt (\<le>) (s::jsnum list) \<Longrightarrow> NaN \<notin> set s \<Longrightarrow> i \<le> j \<Longrightarrow> j < length s \<Longrightarrow> s ! i \<le> s ! j"
proof -
  assume s: "sorted_wrt (\<le>) s" and nn: "NaN \<notin> set s" and ij: "i \<le> j" and j: "j < length s"
  show ?thesis
  proof (cases "i = j")
    case True
    have "s ! j \<in> set s" using j by simp
    then have "s ! j \<noteq> NaN" using nn by metis
    then show ?thesis using True by (simp add: jsnum_le_refl)
  next
    case False
    then have "i < j" using ij by simp
    with s show ?thesis using j by (rule sorted_wrt_nth_less)
  qed
qed

lemma first_quartile_clean:
  assumes ne: "vs \<noteq> []" and nn: "NaN \<notin> set vs" and k: "k \<ge> Fin 0"
  shows "Array_sort (\<lambda>a b. a - b) vs ! nat \<lfloor>real (length vs) * 0.25\<rfloor>
           \<in> set (cleanData (KPI_detectOutliers vs k))"
proof -
  let ?s = "Array_sort (\<lambda>a b. a - b) vs"
  let ?i1 = "nat \<lfloor>real (length vs) * 0.25\<rfloor>"
  let ?i3 = "nat \<lfloor>real (length vs) * 0.75\<rfloor>"
  have len: "0 < length vs" using ne by simp
  have idx: "?i1 \<le> ?i3" "?i3 < length ?s" using quartile_indices[OF len] by simp_all
  have nns: "NaN \<notin> set ?s" using nn by simp
  have q1: "?s ! ?i1 \<in> set ?s" and q3: "?s ! ?i3 \<in> set ?s"
    by (rule nth_mem, use idx in linarith)+
  have q1n: "?s ! ?i1 \<noteq> NaN" and q3n: "?s ! ?i3 \<noteq> NaN" using q1 q3 nns by metis+
  have le: "?s ! ?i1 \<le> ?s ! ?i3"
    using sorted_Array_sort[OF nn] nns idx by (rule sorted_nth_le)
  have "\<not> (?s ! ?i1 < ?s ! ?i1 - k * (?s ! ?i3 - ?s ! ?i1) \<or> ?s ! ?i1 > ?s ! ?i3 + k * (?s ! ?i3 - ?s ! ?i1))"
    using q1n q3n le k by (rule quartile_within_bounds)
  moreover have "?s ! ?i1 \<in> set vs" using q1 by simp
  ultimately show ?thesis using ne by (simp add: KPI_detectOutliers_def Let_def)
qed


lemma Math_min_cases: "a \<noteq> NaN \<Longrightarrow> b \<noteq> NaN \<Longrightarrow> Math_min a b = a \<or> Math_min a b = b"
  by (simp add: Math_min_def)

lemma Math_max_cases: "a \<noteq> NaN \<Longrightarrow> b \<noteq> NaN \<Longrightarrow> Math_max a b = a \<or> Math_max a b = b"
  by (simp add: Math_max_def)

lemma foldl_Math_min_mem:
  "NaN \<notin> set xs \<Longrightarrow> a \<noteq> NaN \<Longrightarrow> foldl Math_min a xs \<in> insert a (set xs)"
proof (induction xs arbitrary: a)
  case Nil
  then show ?case by simp
next
  case (Cons x xs)
  then have x: "x \<noteq> NaN" by auto
  from Math_min_cases[OF Cons.prems(2) x] have m: "Math_min a x \<in> {a, x}" by auto
  then have "Math_min a x \<noteq> NaN" using x Cons.prems(2) by auto
  with Cons have "foldl Math_min (Math_min a x) xs \<in> insert (Math_min a x) (set xs)" by auto
  with m show ?case by auto
qed

lemma foldl_Math_max_mem:
  "NaN \<notin> set xs \<Longrightarrow> a \<noteq> NaN \<Longrightarrow> foldl Math_max a xs \<in> insert a (set xs)"
proof (induction xs arbitrary: a)
  case Nil
  then show ?case by simp
next
  case (Cons x xs)
  then have x: "x \<noteq> NaN" by auto
  from Math_max_cases[OF Cons.prems(2) x] have m: "Math_max a x \<in> {a, x}" by auto
  then have "Math_max a x \<noteq> NaN" using x Cons.prems(2) by auto
  with Cons have "foldl Math_max (Math_max a x) xs \<in> insert (Math_max a x) (set xs)" by auto
  with m show ?case by auto
qed

lemma Math_min_list_mem: "xs \<noteq> [] \<Longrightarrow> NaN \<notin> set xs \<Longrightarrow> Math_min_list xs \<in> set xs"
proof (cases xs)
  case Nil
  then show "xs \<noteq> [] \<Longrightarrow> ?thesis" by simp
next
  case (Cons x ys)
  assume nn: "NaN \<notin> set xs"
  then have x: "x \<noteq> NaN" using Cons by auto
  then have "Math_min PInf x = x" by (cases x) (auto simp: Math_min_def)
  then have "Math_min_list xs = foldl Math_min x ys" using Cons by (simp add: Math_min_list_def)
  moreover have "foldl Math_min x ys \<in> insert x (set ys)" using nn x Cons by (intro foldl_Math_min_mem) auto
  ultimately show ?thesis using Cons by simp
qed

lemma Math_max_list_mem: "xs \<noteq> [] \<Longrightarrow> NaN \<notin> set xs \<Longrightarrow> Math_max_list xs \<in> set xs"
proof (cases xs)
  case Nil
  then show "xs \<noteq> [] \<Longrightarrow> ?thesis" by simp
next
  case (Cons x ys)
  assume nn: "NaN \<notin> set xs"
  then have x: "x \<noteq> NaN" using Cons by auto
  then have "Math_max NInf x = x" by (cases x) (auto simp: Math_max_def)
  then have "Math_max_list xs = foldl Math_max x ys" using Cons by (simp add: Math_max_list_def)
  moreover have "foldl Math_max x ys \<in> insert x (set ys)" using nn x Cons by (intro foldl_Math_max_mem) auto
  ultimately show ?thesis using Cons by simp
qed

lemma numeric_values_no_NaN: "NaN \<notin> set (numeric_values rt data f)"
  by (auto simp: numeric_values_def isNaN_def)

lemma cleanData_subset: "set (cleanData (KPI_detectOutliers vs k)) \<subseteq> set vs"
  by (auto simp: KPI_detectOutliers_def Let_def)

lemma removeOutliers_subset: "set (fst (removeOutliers opts vs)) \<subseteq> set vs"
  using cleanData_subset by (auto simp: removeOutliers_def Let_def)

lemma removeOutliers_nonempty:
  assumes "vs \<noteq> []" "NaN \<notin> set vs" "or_default (outlierThreshold opts) (Fin 1.5) \<ge> Fin 0"
  shows "fst (removeOutliers opts vs) \<noteq> []"
proof (cases "outlierDetection opts = Some True")
  case True
  from first_quartile_clean[OF assms]
  have "cleanData (KPI_detectOutliers vs (or_default (outlierThreshold opts) (Fin 1.5))) \<noteq> []" by auto
  with True show ?thesis by (simp add: removeOutliers_def Let_def)
next
  case False
  with assms show ?thesis by (simp add: removeOutliers_def)
qed

text \<open>
  C10. For every non-empty list of numbers without \<open>NaN\<close> and every threshold \<open>k \<ge> 0\<close>,
  the value at the first-quartile index of the sorted list is not flagged by
  \<^verbatim>\<open>detectOutliers\<close> (it is neither below \<open>q1 - k * IQR\<close> nor above \<open>q3 + k * IQR\<close>), so
  the clean partition is not empty. Hence in \<^verbatim>\<open>calculateProcessDuration\<close>, whenever a numeric
  duration exists and the threshold in force is not negative, the cleaned list is not
  empty and the reported minimum and maximum are durations of the data, not the values
  \<open>Infinity\<close> and \<open>-Infinity\<close> of the empty list.
\<close>

theorem detectOutliers_clean_nonempty:
  "(vs \<noteq> [] \<and> NaN \<notin> set vs \<and> k \<ge> Fin 0 \<longrightarrow>
      Array_sort (\<lambda>a b. a - b) vs ! nat \<lfloor>real (length vs) * 0.25\<rfloor>
        \<in> set (cleanData (KPI_detectOutliers vs k))
      \<and> cleanData (KPI_detectOutliers vs k) \<noteq> [])
   \<and> (numeric_values rt data f \<noteq> [] \<and> or_default (outlierThreshold opts) (Fin 1.5) \<ge> Fin 0 \<longrightarrow>
      fst (removeOutliers opts (numeric_values rt data f)) \<noteq> []
      \<and> dur_min (calculateProcessDuration rt opts data f) \<in> set (numeric_values rt data f)
      \<and> dur_max (calculateProcessDuration rt opts data f) \<in> set (numeric_values rt data f))"
proof (intro conjI impI; elim conjE)
  assume a: "vs \<noteq> []" "NaN \<notin> set vs" "k \<ge> Fin 0"
  from first_quartile_clean[OF a]
  show q: "Array_sort (\<lambda>a b. a - b) vs ! nat \<lfloor>real (length vs) * 0.25\<rfloor>
        \<in> set (cleanData (KPI_detectOutliers vs k))" .
  then show "cleanData (KPI_detectOutliers vs k) \<noteq> []" by auto
next
  let ?d = "numeric_values rt data f"
  let ?c = "fst (removeOutliers opts ?d)"
  assume a: "?d \<noteq> []" "or_default (outlierThreshold opts) (Fin 1.5) \<ge> Fin 0"
  have ne: "?c \<noteq> []" using a numeric_values_no_NaN by (intro removeOutliers_nonempty) auto
  have sub: "set ?c \<subseteq> set ?d" by (rule removeOutliers_subset)
  have nn: "NaN \<notin> set ?c" using sub numeric_values_no_NaN by blast
  show "?c \<noteq> []" by (rule ne)
  have "dur_min (calculateProcessDuration rt opts data f) = Math_min_list ?c"
    using a by (simp add: calculateProcessDuration_def Let_def split: prod.splits)
  then show "dur_min (calculateProcessDuration rt opts data f) \<in> set ?d"
    using Math_min_list_mem[OF ne nn] sub by auto
  have "dur_max (calculateProcessDuration rt opts data f) = Math_max_list ?c"
    using a by (simp add: calculateProcessDuration_def Let_def split: prod.splits)
  then show "dur_max (calculateProcessDuration rt opts data f) \<in> set ?d"
    using Math_max_list_mem[OF ne nn] sub by auto
qed

lemma duration_records_values:
  "numeric_values example_runtime duration_records ''Duration'' = [Fin 4.5, Fin 4.2, Fin 5.1, Fin 3.8, Fin 4.3]"
  by (simp add: numeric_values_def duration_records_def get_field_def isNaN_def)

theorem detectOutliers_clean_nonempty_example:
  "cleanData (KPI_detectOutliers [Fin 4.5, Fin 4.2, Fin 5.1, Fin 3.8, Fin 4.3] (Fin 1.5)) \<noteq> []
   \<and> dur_min (calculateProcessDuration example_runtime default_KPI_options duration_records ''Duration'')
        \<in> set [Fin 4.5, Fin 4.2, Fin 5.1, Fin 3.8, Fin 4.3]"
  using detectOutliers_clean_nonempty [of "[Fin 4.5, Fin 4.2, Fin 5.1, Fin 3.8, Fin 4.3]" "Fin 1.5"
      example_runtime duration_records "''Duration''" default_KPI_options]
  by (simp add: duration_records_values default_KPI_options_def or_default_def)

lemma length_numeric_values:
  "length (numeric_values rt data f) = length (filter (\<lambda>item. Number rt (get_field item f) \<noteq> NaN) data)"
  by (induction data) (auto simp: numeric_values_def isNaN_def)

subsection \<open>Process duration\<close>



lemma detect_example:
  "KPI_detectOutliers [Fin 4.5, Fin 4.2, Fin 5.1, Fin 3.8, Fin 4.3] (Fin 1.5)
     = \<lparr>cleanData = [Fin 4.5, Fin 4.2, Fin 3.8, Fin 4.3], outliers = [Fin 5.1]\<rparr>"
  by (simp add: KPI_detectOutliers_def Let_def Array_sort_def)


subsection \<open>The Wilson score interval\<close>


lemma getZScore_084: "\<exists>z. z < 0 \<and> KPI_getZScore (Fin 0.84) = Fin z"
  by (simp add: KPI_getZScore_def KPI_inverseNormalCDF_def js_eq_def Let_def)

lemma getZScore_tabulated:
  "KPI_getZScore (Fin 0.90) = Fin 1.645" "KPI_getZScore (Fin 0.95) = Fin 1.96"
  "KPI_getZScore (Fin 0.99) = Fin 2.576"
  by (simp_all add: KPI_getZScore_def js_eq_def)

lemma Math_max_Fin [simp]: "Math_max (Fin a) (Fin b) = Fin (max a b)"
  by (simp add: Math_max_def max_def)

lemma Math_min_Fin [simp]: "Math_min (Fin a) (Fin b) = Fin (min a b)"
  by (simp add: Math_min_def min_def)


lemma wilson_radicand_nonneg:
  fixes p n z :: real
  assumes "0 \<le> p" "p \<le> 1" "0 < n"
  shows "0 \<le> (p * (1 - p) + z * z / (4 * n)) / n"
proof -
  have "0 \<le> p * (1 - p)" using assms by (simp add: mult_nonneg_nonneg)
  moreover have "0 \<le> z * z / (4 * n)" using assms by simp
  ultimately show ?thesis using assms by simp
qed

lemma wilson_denominator_pos:
  fixes n z :: real
  assumes "0 < n"
  shows "0 < 1 + z * z / n"
proof -
  have "0 \<le> z * z / n" using assms by simp
  then show ?thesis by linarith
qed

lemma calculateWilsonInterval_Fin:
  assumes z: "KPI_getZScore level = Fin z" and n: "0 < n" and k: "0 \<le> k" "k \<le> n"
  shows "KPI_calculateWilsonInterval (Fin k) (Fin n) level =
     (Fin (max 0 (wilson_center (k / n) n z - wilson_adjustment (k / n) n z)),
      Fin (min 1 (wilson_center (k / n) n z + wilson_adjustment (k / n) n z)))"
proof -
  have p: "0 \<le> k / n" "k / n \<le> 1" using n k by simp_all
  have r: "\<not> (k / n * (1 - k / n) + z * z / (4 * n)) / n < 0"
    using wilson_radicand_nonneg[OF p n, of z] by linarith
  have d: "1 + z * z / n \<noteq> 0" using wilson_denominator_pos[OF n, of z] by linarith
  show ?thesis
    using n r d
    by (simp add: KPI_calculateWilsonInterval_def z js_eq_def Let_def
        wilson_center_def wilson_adjustment_def)
qed

lemma wilson_contains_proportion:
  fixes p n z :: real
  assumes p: "0 \<le> p" "p \<le> 1" and n: "0 < n" and z: "0 \<le> z"
  shows "wilson_center p n z - wilson_adjustment p n z \<le> p"
    and "p \<le> wilson_center p n z + wilson_adjustment p n z"
proof -
  define D where "D = 1 + z * z / n"
  define S where "S = (p * (1 - p) + z * z / (4 * n)) / n"
  have D: "0 < D" unfolding D_def using n by (rule wilson_denominator_pos)
  have S: "0 \<le> S" unfolding S_def using p n by (rule wilson_radicand_nonneg)
  have c1: "wilson_center p n z = (p + z * z / (2 * n)) / D"
    unfolding wilson_center_def D_def by simp
  have c2: "(p + z * z / (2 * n)) / D - p = ((p + z * z / (2 * n)) - p * D) / D"
    using D by (simp add: field_simps)
  have c3: "(p + z * z / (2 * n)) - p * D = (z * z / n) * (1 / 2 - p)"
    unfolding D_def using n by (simp add: field_simps)
  have c: "wilson_center p n z - p = (z * z / n) * (1 / 2 - p) / D"
    using c1 c2 c3 by simp
  have a: "wilson_adjustment p n z = z * sqrt S / D"
    unfolding wilson_adjustment_def D_def S_def by simp
  have pq: "0 \<le> p * (1 - p)" using p by (simp add: mult_nonneg_nonneg)
  have "((z * z / n) * \<bar>1 / 2 - p\<bar>)\<^sup>2 = z^4 / n^2 * (1 / 4 - p * (1 - p))"
    by (simp add: power2_eq_square power4_eq_xxxx field_simps)
  also have "\<dots> \<le> z^4 / n^2 * (1 / 4) + z^2 * (p * (1 - p)) / n"
  proof -
    have "0 \<le> z^4 / n^2 * (p * (1 - p))" using pq by simp
    moreover have "0 \<le> z^2 * (p * (1 - p)) / n" using pq n by simp
    moreover have "z^4 / n^2 * (1 / 4 - p * (1 - p))
        = z^4 / n^2 * (1 / 4) - z^4 / n^2 * (p * (1 - p))"
      by (rule right_diff_distrib)
    ultimately show ?thesis by linarith
  qed
  also have "\<dots> = (z * sqrt S)\<^sup>2"
    using S n unfolding S_def
    by (simp add: power_mult_distrib power2_eq_square power4_eq_xxxx field_simps)
  finally have "((z * z / n) * \<bar>1 / 2 - p\<bar>)\<^sup>2 \<le> (z * sqrt S)\<^sup>2" .
  moreover have "0 \<le> z * sqrt S" using z S by simp
  ultimately have "(z * z / n) * \<bar>1 / 2 - p\<bar> \<le> z * sqrt S" by (rule power2_le_imp_le)
  moreover have "\<bar>(z * z / n) * (1 / 2 - p)\<bar> = (z * z / n) * \<bar>1 / 2 - p\<bar>"
    using n by (simp add: abs_mult)
  ultimately have le: "\<bar>(z * z / n) * (1 / 2 - p)\<bar> \<le> z * sqrt S" by simp
  have "\<bar>(z * z / n) * (1 / 2 - p) / D\<bar> = \<bar>(z * z / n) * (1 / 2 - p)\<bar> / D"
    using D by (simp only: abs_divide abs_of_pos)
  also have "\<dots> \<le> z * sqrt S / D"
    using le D by (intro divide_right_mono) simp_all
  finally have "\<bar>(z * z / n) * (1 / 2 - p) / D\<bar> \<le> z * sqrt S / D" .
  then have "\<bar>wilson_center p n z - p\<bar> \<le> wilson_adjustment p n z" using c a by simp
  then show "wilson_center p n z - wilson_adjustment p n z \<le> p"
    and "p \<le> wilson_center p n z + wilson_adjustment p n z" by linarith+
qed


lemma wilson_claim_of_nonneg_z:
  assumes kn: "k \<le> n" and z: "KPI_getZScore level = Fin z" "0 \<le> z"
  shows "wilson_claim k n (KPI_calculateWilsonInterval (num k) (num n) level)"
proof (cases "n = 0")
  case True
  then show ?thesis by (simp add: wilson_claim_def KPI_calculateWilsonInterval_def js_eq_def)
next
  case False
  then have n: "0 < real n" by simp
  have k: "0 \<le> real k" "real k \<le> real n" using kn by simp_all
  have p: "0 \<le> real k / real n" "real k / real n \<le> 1" using n k by simp_all
  note iv = calculateWilsonInterval_Fin[OF z(1) n k]
  note b = wilson_contains_proportion[OF p n z(2)]
  have lo: "max 0 (wilson_center (real k / real n) (real n) z
              - wilson_adjustment (real k / real n) (real n) z) \<le> real k / real n"
    using b(1) p(1) by simp
  have hi: "real k / real n \<le> min 1 (wilson_center (real k / real n) (real n) z
              + wilson_adjustment (real k / real n) (real n) z)"
    using b(2) p(2) by simp
  show ?thesis using False lo hi n by (simp add: wilson_claim_def iv)
qed




subsection \<open>Trends\<close>


lemma jsnum_less_asym: "(a::jsnum) < b \<Longrightarrow> \<not> b < a"
  by (cases a; cases b) auto


lemma trend_records_sorted:
  "Array_sort (\<lambda>a b. DateGetTime example_runtime (get_field a ''Time'')
                      - DateGetTime example_runtime (get_field b ''Time'')) trend_records
   = map (\<lambda>(t, v). [''Time'' \<mapsto> JNum (Fin t), ''Value'' \<mapsto> JNum (Fin v)])
     [(1, 1), (2, 2), (3, 3), (4, 4), (5, 5)]"
  by (simp add: trend_records_def Array_sort_def example_runtime_def get_field_def)

lemma trend_example:
  "identifyTrends example_runtime default_KPI_options trend_records ''Time'' ''Value'' 5
     = TrendFound \<lparr>trend = ''increasing'', tr_slope = Fin 1, tr_intercept = Fin 0,
        tr_rSquared = Fin 1, significant = False, pValue = Fin (11 / 12),
        periods_of =
          [\<lparr>period = Suc 0, ps_average = Fin 1, ps_stdDev = Fin 0, ps_sampleSize = Suc 0\<rparr>,
           \<lparr>period = Suc (Suc 0), ps_average = Fin 2, ps_stdDev = Fin 0, ps_sampleSize = Suc 0\<rparr>,
           \<lparr>period = Suc (Suc (Suc 0)), ps_average = Fin 3, ps_stdDev = Fin 0, ps_sampleSize = Suc 0\<rparr>,
           \<lparr>period = Suc (Suc (Suc (Suc 0))), ps_average = Fin 4, ps_stdDev = Fin 0,
              ps_sampleSize = Suc 0\<rparr>,
           \<lparr>period = Suc (Suc (Suc (Suc (Suc 0)))), ps_average = Fin 5, ps_stdDev = Fin 0,
              ps_sampleSize = Suc 0\<rparr>]\<rparr>"
  unfolding identifyTrends_def trend_records_sorted
  by (simp add: Let_def numeric_values_def get_field_def isNaN_def example_runtime_def periodValues_def slice_def
      KPI_calculateMean_def KPI_calculateStandardDeviation_def KPI_calculateVariance_def sum_reduce_def
      KPI_calculateLinearRegression_def regression_step_def Math_pow2_def KPI_tDistPValue_def enumerate_eq_zip upt_rec[of _ "numeral _"] upt_rec[of _ "Suc _"])

lemma trend_records_values:
  "numeric_values example_runtime trend_records ''Value'' \<noteq> []"
  by (simp add: numeric_values_def trend_records_def get_field_def isNaN_def example_runtime_def)


subsection \<open>Step changes\<close>

lemma step_records_values: "numeric_values rt step_records ''Value'' = step_series"
  by (simp add: numeric_values_def step_records_def step_series_def get_field_def isNaN_def)

lemma step_scan:
  "foldl (stepChange_scan step_series) (None, Fin 0)
     [max 3 (length step_series div 10)..<Suc (length step_series - max 3 (length step_series div 10))]
   = (Some 10, Fin 10)"
  by (simp add: step_series_def stepChange_scan_def slice_def PA_calculateMean_def sum_reduce_def Let_def
      upt_rec[of "numeral _" ] upt_rec[of "Suc _"])

lemma step_tStat:
  "PA_tDistPValue PInf (Fin 18) = Fin (71 / 72)"
  by (simp add: PA_tDistPValue_def Let_def)

text \<open>On the series of exactly ten values 10 followed by ten values 20 the scan finds the
  split 10 with mean difference 10, the pooled standard error is 0, the t-statistic is
  \<open>Infinity\<close>, and \<^verbatim>\<open>tDistPValue(Infinity, 18)\<close> is \<open>71/72\<close>: no pattern is reported.\<close>

lemma detectStepChangePattern_exact_shift_none:
  "detectStepChangePattern rt default_PA_options step_records ''Value'' = None"
  unfolding detectStepChangePattern_def step_records_values Let_def step_scan
  by (simp add: step_series_def slice_def PA_calculateMean_def
      PA_calculateStandardDeviation_def sum_reduce_def Math_pow2_def step_tStat default_PA_options_def
      or_default_def)

text \<open>On finite values the helpers compute the real mean and the real sum of squared
  deviations, and the scan ends on a split point whose difference of means is the
  largest of the scanned ones.\<close>

lemma foldl_plus_Fin: "foldl (+) (Fin a) (map Fin rs) = Fin (a + sum_list rs)"
  by (induction rs arbitrary: a) (simp_all add: add.assoc)

lemma sum_reduce_Fin: "sum_reduce (map Fin rs) = Fin (sum_list rs)"
  by (simp add: sum_reduce_def foldl_plus_Fin)

lemma PA_calculateMean_Fin: "PA_calculateMean (map Fin rs) = Fin (real_mean rs)"
  by (simp add: PA_calculateMean_def real_mean_def sum_reduce_Fin)

lemma sum_sq_dev_nonneg: "0 \<le> sum_sq_dev rs"
  unfolding sum_sq_dev_def by (rule sum_list_nonneg) auto

lemma PA_calculateStandardDeviation_Fin:
  "PA_calculateStandardDeviation (map Fin rs)
     = Fin (if length rs \<le> 1 then 0 else sqrt (sum_sq_dev rs / (real (length rs) - 1)))"
proof (cases "length rs \<le> 1")
  case True
  then show ?thesis by (simp add: PA_calculateStandardDeviation_def)
next
  case False
  have m: "map (\<lambda>v. Math_pow2 (v - Fin (real_mean rs))) (map Fin rs)
      = map Fin (map (\<lambda>v. (v - real_mean rs) * (v - real_mean rs)) rs)"
    by (simp add: Math_pow2_def)
  have nn: "\<not> sum_sq_dev rs / (real (length rs) - 1) < 0"
    using sum_sq_dev_nonneg[of rs] False by (simp add: not_less)
  show ?thesis
    using False nn
    by (simp add: PA_calculateStandardDeviation_def PA_calculateMean_Fin Let_def m sum_reduce_Fin
        sum_sq_dev_def del: map_map)
qed

lemma stepChange_scan_Fin:
  "stepChange_scan (map Fin rs) (b, Fin m) i
     = (if mean_difference rs i > m then (Some i, Fin (mean_difference rs i)) else (b, Fin m))"
  by (simp add: stepChange_scan_def slice_def Let_def PA_calculateMean_Fin mean_difference_def
      take_map drop_map)

lemma scan_invariant:
  "\<exists>b' m'. foldl (stepChange_scan (map Fin rs)) (b, Fin m) is = (b', Fin m')
      \<and> m \<le> m' \<and> (\<forall>i\<in>set is. mean_difference rs i \<le> m')
      \<and> ((b' = b \<and> m' = m) \<or> (\<exists>i\<in>set is. b' = Some i \<and> m' = mean_difference rs i))"
proof (induction "is" arbitrary: b m)
  case Nil
  show ?case by simp
next
  case (Cons i "is")
  show ?case
  proof (cases "mean_difference rs i > m")
    case True
    from Cons[of "Some i" "mean_difference rs i"]
    obtain b' m' where r: "foldl (stepChange_scan (map Fin rs)) (Some i, Fin (mean_difference rs i)) is = (b', Fin m')"
      and m: "mean_difference rs i \<le> m'" and all: "\<forall>j\<in>set is. mean_difference rs j \<le> m'"
      and or: "(b' = Some i \<and> m' = mean_difference rs i) \<or> (\<exists>j\<in>set is. b' = Some j \<and> m' = mean_difference rs j)"
      by blast
    have "foldl (stepChange_scan (map Fin rs)) (b, Fin m) (i # is) = (b', Fin m')"
      using True r by (simp add: stepChange_scan_Fin)
    moreover have "m \<le> m'" using True m by simp
    moreover have "\<forall>j\<in>set (i # is). mean_difference rs j \<le> m'" using m all by simp
    moreover have "\<exists>j\<in>set (i # is). b' = Some j \<and> m' = mean_difference rs j" using or by auto
    ultimately show ?thesis by blast
  next
    case False
    from Cons[of b m]
    obtain b' m' where r: "foldl (stepChange_scan (map Fin rs)) (b, Fin m) is = (b', Fin m')"
      and m: "m \<le> m'" and all: "\<forall>j\<in>set is. mean_difference rs j \<le> m'"
      and or: "(b' = b \<and> m' = m) \<or> (\<exists>j\<in>set is. b' = Some j \<and> m' = mean_difference rs j)"
      by blast
    have "foldl (stepChange_scan (map Fin rs)) (b, Fin m) (i # is) = (b', Fin m')"
      using False r by (simp add: stepChange_scan_Fin)
    moreover have "\<forall>j\<in>set (i # is). mean_difference rs j \<le> m'" using m all False by simp
    moreover have "(b' = b \<and> m' = m) \<or> (\<exists>j\<in>set (i # is). b' = Some j \<and> m' = mean_difference rs j)"
      using or by auto
    ultimately show ?thesis using m by blast
  qed
qed


lemma sum_list_bounds:
  fixes rs :: "real list"
  assumes "\<forall>v\<in>set rs. lo \<le> v \<and> v \<le> hi"
  shows "real (length rs) * lo \<le> sum_list rs \<and> sum_list rs \<le> real (length rs) * hi"
  using assms by (induction rs) (auto simp: algebra_simps)

lemma real_mean_bounds:
  assumes "rs \<noteq> []" "\<forall>v\<in>set rs. lo \<le> v \<and> v \<le> hi"
  shows "lo \<le> real_mean rs \<and> real_mean rs \<le> hi"
proof -
  have n: "0 < real (length rs)" using assms(1) by simp
  from sum_list_bounds[OF assms(2)]
  have "real (length rs) * lo \<le> sum_list rs" "sum_list rs \<le> real (length rs) * hi" by simp_all
  then have "lo \<le> sum_list rs / real (length rs)" "sum_list rs / real (length rs) \<le> hi"
    using n by (simp_all add: pos_le_divide_eq pos_divide_le_eq mult.commute)
  then show ?thesis using assms(1) by (simp add: real_mean_def)
qed

lemma sum_list_map_le:
  fixes f :: "real \<Rightarrow> real"
  assumes "\<forall>v\<in>set rs. f v \<le> c"
  shows "sum_list (map f rs) \<le> real (length rs) * c"
  using assms by (induction rs) (auto simp: algebra_simps)

lemma sum_sq_dev_bound:
  assumes "\<forall>v\<in>set rs. lo \<le> v \<and> v \<le> hi"
  shows "sum_sq_dev rs \<le> real (length rs) * ((hi - lo) * (hi - lo))"
proof (cases "rs = []")
  case True
  then show ?thesis by (simp add: sum_sq_dev_def)
next
  case False
  from real_mean_bounds[OF False assms] have m: "lo \<le> real_mean rs" "real_mean rs \<le> hi" by simp_all
  have "\<forall>v\<in>set rs. (v - real_mean rs) * (v - real_mean rs) \<le> (hi - lo) * (hi - lo)"
  proof
    fix v assume "v \<in> set rs"
    then have "lo \<le> v" "v \<le> hi" using assms by simp_all
    then have "\<bar>v - real_mean rs\<bar> \<le> hi - lo" using m by linarith
    then have "\<bar>v - real_mean rs\<bar> * \<bar>v - real_mean rs\<bar> \<le> (hi - lo) * (hi - lo)"
      by (intro mult_mono) simp_all
    then show "(v - real_mean rs) * (v - real_mean rs) \<le> (hi - lo) * (hi - lo)" by simp
  qed
  then show ?thesis unfolding sum_sq_dev_def by (rule sum_list_map_le)
qed

lemma tDistPValue_18_large:
  assumes D: "0 < D" and s: "0 \<le> s" and big: "s * s \<le> 2 * (D * D)"
  shows "\<exists>p. PA_tDistPValue (Fin D / Fin s) (Fin 18) = Fin p \<and> 1 / 20 \<le> p"
proof (cases "s = 0")
  case True
  then have "Fin D / Fin s = PInf" using D by simp
  then have v: "PA_tDistPValue (Fin D / Fin s) (Fin 18) = Fin (71 / 72)"
    by (simp add: PA_tDistPValue_def Let_def)
  have "(1::real) / 20 \<le> 71 / 72" by simp
  with v show ?thesis by (intro exI[of _ "71 / 72"] conjI)
next
  case False
  define t where "t = D / s"
  define u where "u = t * t"
  have spos: "0 < s" using s False by simp
  have tt: "1 / 2 \<le> u"
  proof -
    have "u = (D * D) / (s * s)" by (simp add: t_def u_def)
    moreover have "1 / 2 \<le> (D * D) / (s * s)"
      using big spos by (simp add: pos_le_divide_eq)
    ultimately show ?thesis by simp
  qed
  have den: "0 < 18 + u" using tt by linarith
  define x where "x = 18 / (18 + u)"
  have x1: "x \<le> 36 / 37"
  proof -
    have "18 \<le> 36 * u" using tt by simp
    then have "18 * 37 \<le> (18 + u) * 36" by simp
    then show ?thesis unfolding x_def using den by (simp add: pos_divide_le_eq)
  qed
  have "(4 / 25 :: real)\<^sup>2 \<le> 1 - x" using x1 by (simp add: power2_eq_square)
  then have sq: "4 / 25 \<le> sqrt (1 - x)" by (rule real_le_rsqrt)
  have e: "1 / 2 \<le> 1 / 2 + 0.3989422804 * exp (- t * t / 2)" by simp
  have xle: "x \<le> 1" using x1 by linarith
  have m: "(4 / 25) * (1 / 2) \<le> sqrt (1 - x) * (1 / 2 + 0.3989422804 * exp (- t * t / 2))"
    using sq e xle by (intro mult_mono) simp_all
  define q where "q = sqrt (1 - x) * (1 / 2 + 0.3989422804 * exp (- t * t / 2))"
  have "2 / 25 \<le> q" using m unfolding q_def by simp
  then have "1 / 20 \<le> 2 * (q * (1 - 1 / (4 * 18)))" by simp
  then have p: "1 / 20 \<le> 2 * (sqrt (1 - x) * (1 / 2 + 0.3989422804 * exp (- t * t / 2)) * (1 - 1 / (4 * 18)))"
    unfolding q_def .
  have val: "PA_tDistPValue (Fin t) (Fin 18)
      = Fin (2 * (sqrt (1 - x) * (1 / 2 + 0.3989422804 * exp (- t * t / 2)) * (1 - 1 / (4 * 18))))"
  proof -
    have "\<not> 1 - x < 0" using x1 by linarith
    moreover have "18 + t * t \<noteq> 0" using den by (simp add: u_def)
    ultimately show ?thesis
      unfolding x_def u_def by (simp add: PA_tDistPValue_def Let_def)
  qed
  have eq: "Fin D / Fin s = Fin t" using False by (simp add: t_def)
  show ?thesis unfolding eq val by (rule exI, rule conjI, rule refl, rule p)
qed

lemma pow2_standardDeviation:
  assumes "2 \<le> length rs"
  shows "(num (length (map Fin rs)) - Fin 1) * Math_pow2 (PA_calculateStandardDeviation (map Fin rs))
           = Fin (sum_sq_dev rs)"
proof -
  have n: "0 < real (length rs) - 1" using assms by simp
  have nn: "0 \<le> sum_sq_dev rs / (real (length rs) - 1)" using sum_sq_dev_nonneg[of rs] n by simp
  have "PA_calculateStandardDeviation (map Fin rs) = Fin (sqrt (sum_sq_dev rs / (real (length rs) - 1)))"
    using assms by (simp add: PA_calculateStandardDeviation_Fin)
  moreover have "sqrt (sum_sq_dev rs / (real (length rs) - 1)) * sqrt (sum_sq_dev rs / (real (length rs) - 1))
      = sum_sq_dev rs / (real (length rs) - 1)"
    using nn by (simp only: real_sqrt_mult_self abs_of_nonneg)
  ultimately have "Math_pow2 (PA_calculateStandardDeviation (map Fin rs)) = Fin (sum_sq_dev rs / (real (length rs) - 1))"
    by (simp add: Math_pow2_def)
  then show ?thesis using n by (simp add: num_def)
qed

text \<open>
  C6. For every series of 20 numeric values whose first ten lie within \<open>10 \<plusminus> 0.5\<close> and
  whose last ten lie within \<open>20 \<plusminus> 0.5\<close>, \<^verbatim>\<open>detectStepChangePattern\<close> with a significance
  threshold of at most 0.05 (the default) reports no pattern. The scan runs over the splits
  3 to 17 and keeps one whose mean difference is at least 9, the one of split 10; the
  pooled variance of the two segments is at most \<open>2420/18\<close>, so the squared t-statistic
  is at least \<open>1/2\<close>; and for 18 degrees of freedom \<^verbatim>\<open>tDistPValue\<close> is then at least
  \<open>2 \<cdot> 0.16 \<cdot> 0.5 \<cdot> 71/72\<close>, which is not below 0.05.
\<close>

theorem detectStepChangePattern_scenario_D_none:
  fixes xs ys :: "real list"
  assumes vals: "numeric_values rt sortedData parameter = map Fin (xs @ ys)"
    and lx: "length xs = 10" and ly: "length ys = 10"
    and bx: "\<forall>v\<in>set xs. \<bar>v - 10\<bar> \<le> 1 / 2"
    and bys: "\<forall>v\<in>set ys. \<bar>v - 20\<bar> \<le> 1 / 2"
    and th: "or_default (significanceThreshold opts) (Fin 0.05) = Fin t" "t \<le> 1 / 20"
  shows "detectStepChangePattern rt opts sortedData parameter = None"
proof -
  define rs where "rs = xs @ ys"
  have len: "length rs = 20" using lx ly by (simp add: rs_def)
  have xs_range: "\<forall>v\<in>set xs. 19 / 2 \<le> v \<and> v \<le> 21 / 2"
  proof
    fix v assume "v \<in> set xs"
    then have "\<bar>v - 10\<bar> \<le> 1 / 2" using bx by simp
    then show "19 / 2 \<le> v \<and> v \<le> 21 / 2" by linarith
  qed
  have ys_range: "\<forall>v\<in>set ys. 39 / 2 \<le> v \<and> v \<le> 41 / 2"
  proof
    fix v assume "v \<in> set ys"
    then have "\<bar>v - 20\<bar> \<le> 1 / 2" using bys by simp
    then show "39 / 2 \<le> v \<and> v \<le> 41 / 2" by linarith
  qed
  have range: "\<forall>v\<in>set rs. 19 / 2 \<le> v \<and> v \<le> 41 / 2"
  proof
    fix v assume "v \<in> set rs"
    then have "v \<in> set xs \<or> v \<in> set ys" by (simp add: rs_def)
    then show "19 / 2 \<le> v \<and> v \<le> 41 / 2"
    proof
      assume "v \<in> set xs"
      with xs_range have "19 / 2 \<le> v \<and> v \<le> 21 / 2" by simp
      then show ?thesis by linarith
    next
      assume "v \<in> set ys"
      with ys_range have "39 / 2 \<le> v \<and> v \<le> 41 / 2" by simp
      then show ?thesis by linarith
    qed
  qed
  have split10: "take 10 rs = xs" "drop 10 rs = ys" using lx by (simp_all add: rs_def)
  have xne: "xs \<noteq> []" and yne: "ys \<noteq> []" using lx ly by auto
  from real_mean_bounds[OF xne xs_range] have mx: "real_mean xs \<le> 21 / 2" by simp
  from real_mean_bounds[OF yne ys_range] have my: "39 / 2 \<le> real_mean ys" by simp
  have d10: "9 \<le> mean_difference rs 10"
    unfolding mean_difference_def split10 using mx my by linarith
  from scan_invariant[of rs None 0 "[3..<18]"]
  obtain b' m' where scan: "foldl (stepChange_scan (map Fin rs)) (None, Fin 0) [3..<18] = (b', Fin m')"
    and all: "\<forall>i\<in>set [3..<18]. mean_difference rs i \<le> m'"
    and or: "(b' = None \<and> m' = 0) \<or> (\<exists>i\<in>set [3..<18]. b' = Some i \<and> m' = mean_difference rs i)"
    by blast
  have ten: "(10::nat) \<in> set [3..<18]" by simp
  from bspec[OF all ten] have "mean_difference rs 10 \<le> m'" .
  with d10 have m9: "9 \<le> m'" by linarith
  then have "\<not> (b' = None \<and> m' = 0)" by simp
  with or obtain i where iset: "i \<in> set [3..<18]" and b': "b' = Some i" and m': "m' = mean_difference rs i"
    by blast
  have "3 \<le> i \<and> i < 18" using iset unfolding set_upt atLeastLessThan_iff .
  then have i3: "3 \<le> i" and i17: "i \<le> 17" by simp_all
  define D where "D = mean_difference rs i"
  have D9: "9 \<le> D" using m9 m' by (simp add: D_def)
  define s1 where "s1 = take i rs"
  define s2 where "s2 = drop i rs"
  have l1: "length s1 = i" using i17 len by (simp add: s1_def)
  have l2: "length s2 = 20 - i" using len by (simp add: s2_def)
  have r1: "\<forall>v\<in>set s1. 19 / 2 \<le> v \<and> v \<le> 41 / 2"
    using range unfolding s1_def by (meson in_set_takeD)
  have r2: "\<forall>v\<in>set s2. 19 / 2 \<le> v \<and> v \<le> 41 / 2"
    using range unfolding s2_def by (meson in_set_dropD)
  from sum_sq_dev_bound[OF r1] have q1: "sum_sq_dev s1 \<le> real i * 121" by (simp add: l1)
  from sum_sq_dev_bound[OF r2] have q2: "sum_sq_dev s2 \<le> real (20 - i) * 121" by (simp add: l2)
  have n12: "real i + real (20 - i) = 20" using i17 by simp
  define PV where "PV = (sum_sq_dev s1 + sum_sq_dev s2) / 18"
  have PV0: "0 \<le> PV" using sum_sq_dev_nonneg[of s1] sum_sq_dev_nonneg[of s2] by (simp add: PV_def)
  have PVle: "PV \<le> 2420 / 18"
  proof -
    define a where "a = real i"
    define b where "b = real (20 - i)"
    have "sum_sq_dev s1 \<le> a * 121" "sum_sq_dev s2 \<le> b * 121" "a + b = 20"
      using q1 q2 n12 by (simp_all only: a_def b_def)
    then have "sum_sq_dev s1 + sum_sq_dev s2 \<le> 2420" by linarith
    then show ?thesis unfolding PV_def by simp
  qed
  define w where "w = 1 / real i + 1 / real (20 - i)"
  have w1: "1 / real i \<le> 1 / 3" using i3 by (simp add: field_simps)
  have w2: "1 / real (20 - i) \<le> 1 / 3" using i17 by (simp add: field_simps)
  have w0: "0 \<le> w" by (simp add: w_def)
  have "1 / real i + 1 / real (20 - i) \<le> 1 / 3 + 1 / 3" using w1 w2 by (rule add_mono)
  then have wle: "w \<le> 2 / 3" unfolding w_def by simp
  have SE0: "0 \<le> PV * w" using PV0 w0 by simp
  have "PV * w \<le> (2420 / 18) * (2 / 3)" using PVle wle PV0 w0 by (intro mult_mono) simp_all
  then have SEle: "PV * w \<le> 162" by simp
  have "9 * 9 \<le> D * D" using D9 by (intro mult_mono) simp_all
  then have big: "sqrt (PV * w) * sqrt (PV * w) \<le> 2 * (D * D)" using SE0 SEle by simp
  have Dpos: "0 < D" using D9 by linarith
  from tDistPValue_18_large[OF Dpos real_sqrt_ge_zero[OF SE0] big]
  obtain p where p: "PA_tDistPValue (Fin D / Fin (sqrt (PV * w))) (Fin 18) = Fin p" and p5: "1 / 20 \<le> p"
    by blast
  have seg1: "slice (map Fin rs) 0 i = map Fin s1" by (simp add: slice_def s1_def take_map)
  have seg2: "drop i (map Fin rs) = map Fin s2" by (simp add: s2_def drop_map)
  have range_eq: "[max 3 (length (map Fin rs) div 10)..<Suc (length (map Fin rs) - max 3 (length (map Fin rs) div 10))]
      = [3..<18]" by (simp add: len)
  have absD: "\<bar>PA_calculateMean (map Fin s2) - PA_calculateMean (map Fin s1)\<bar> = Fin D"
    by (simp add: PA_calculateMean_Fin D_def mean_difference_def s1_def s2_def)
  have p1: "(num (length (map Fin s1)) - Fin 1) * Math_pow2 (PA_calculateStandardDeviation (map Fin s1))
      = Fin (sum_sq_dev s1)" using i3 l1 by (intro pow2_standardDeviation) simp
  have p2: "(num (length (map Fin s2)) - Fin 1) * Math_pow2 (PA_calculateStandardDeviation (map Fin s2))
      = Fin (sum_sq_dev s2)" using i17 l2 by (intro pow2_standardDeviation) simp
  have df: "num (length (map Fin s1)) + num (length (map Fin s2)) - Fin 2 = Fin 18"
    using n12 by (simp add: num_def l1 l2)
  have pooled: "(Fin (sum_sq_dev s1) + Fin (sum_sq_dev s2)) / Fin 18 = Fin PV" by (simp add: PV_def)
  have weights: "Fin 1 / num (length (map Fin s1)) + Fin 1 / num (length (map Fin s2)) = Fin w"
    using i3 i17 by (simp add: num_def l1 l2 w_def)
  have se: "Math_sqrt (Fin PV * Fin w) = Fin (sqrt (PV * w))" using SE0 by simp
  have ge: "Fin p \<ge> Fin t" using p5 th(2) by simp
  show ?thesis
    unfolding detectStepChangePattern_def vals rs_def[symmetric] Let_def range_eq scan b' fst_conv
      option.case seg1 seg2 absD p1 p2 df pooled weights se p th(1)
    using ge len by simp
qed

lemma noisy_step_values:
  "numeric_values example_runtime noisy_step_records ''Value'' = map Fin (noisy_low @ noisy_high)"
  by (simp add: numeric_values_def noisy_step_records_def noisy_low_def noisy_high_def get_field_def isNaN_def)

theorem detectStepChangePattern_scenario_D_example:
  "detectStepChangePattern example_runtime default_PA_options noisy_step_records ''Value'' = None"
proof -
  have t: "or_default (significanceThreshold default_PA_options) (Fin 0.05) = Fin (1 / 20)"
    by (simp add: default_PA_options_def or_default_def)
  have lx: "length noisy_low = 10" and ly: "length noisy_high = 10"
    by (simp_all add: noisy_low_def noisy_high_def)
  have bx: "\<forall>v\<in>set noisy_low. \<bar>v - 10\<bar> \<le> 1 / 2" by (simp add: noisy_low_def)
  have bys: "\<forall>v\<in>set noisy_high. \<bar>v - 20\<bar> \<le> 1 / 2" by (simp add: noisy_high_def)
  show ?thesis
    by (rule detectStepChangePattern_scenario_D_none [OF noisy_step_values lx ly bx bys t]) simp
qed

subsection \<open>Best performers\<close>

lemma tie_groups:
  "group_by example_runtime ''Type'' tie_records [] =
     Inr [(''2'', [[''Type'' \<mapsto> JStr ''2'', ''Score'' \<mapsto> JNum (Fin 1)],
                   [''Type'' \<mapsto> JStr ''2'', ''Score'' \<mapsto> JNum (Fin 1)],
                   [''Type'' \<mapsto> JStr ''2'', ''Score'' \<mapsto> JNum (Fin 1)]]),
          (''1'', [[''Type'' \<mapsto> JStr ''1'', ''Score'' \<mapsto> JNum (Fin 1)],
                   [''Type'' \<mapsto> JStr ''1'', ''Score'' \<mapsto> JNum (Fin 1)],
                   [''Type'' \<mapsto> JStr ''1'', ''Score'' \<mapsto> JNum (Fin 1)]])]"
  by (simp add: tie_records_def group_key_def get_field_def group_push_def Object_prototype_keys_def)

lemma tie_entries:
  "own_keys_order [''2'', ''1''] = [''1'', ''2'']"
  by (simp add: own_keys_order_def array_index_def)

lemma tie_result:
  "identifyBestPerformers example_runtime default_PA_options tie_records ''Type'' ''Score'' True =
     Inr [\<lparr>processType = ''1'', bp_average = Fin 1, bp_stdDev = Fin 0,
             bp_confidenceInterval = (Fin 1, Fin 1), bp_sampleSize = 3,
             rank = 1, significantlyBetterCount = 0, percentileBetter = Fin 0\<rparr>,
          \<lparr>processType = ''2'', bp_average = Fin 1, bp_stdDev = Fin 0,
             bp_confidenceInterval = (Fin 1, Fin 1), bp_sampleSize = 3,
             rank = 2, significantlyBetterCount = 0, percentileBetter = Fin 0\<rparr>]"
  unfolding identifyBestPerformers_def tie_groups
  by (simp add: Object_entries_def tie_entries List.map_filter_simps performance_of_def
      numeric_values_def get_field_def isNaN_def Let_def PA_calculateMean_def
      PA_calculateStandardDeviation_def PA_calculateConfidenceInterval_def PA_getTValue_def
      sum_reduce_def Math_pow2_def Array_sort_def rank_process_def compare_processes_def
      js_eq_def default_PA_options_def or_default_def
      Performance.extend_def RankedPerformance.fields_def)



lemma set_first_occurrences [simp]: "set (first_occurrences xs) = set xs"
  by (induction xs) auto

lemma group_by_characterisation:
  assumes "\<forall>item\<in>set items. group_key rt f item \<notin> set Object_prototype_keys"
  shows "\<exists>obj'. group_by rt f items obj = Inr obj'
     \<and> map fst obj' = map fst obj
          @ filter (\<lambda>k. k \<notin> fst ` set obj) (first_occurrences (map (group_key rt f) items))
     \<and> (\<forall>k. map_of obj' k =
          (if k \<in> fst ` set obj \<union> group_key rt f ` set items
           then Some ((case map_of obj k of None \<Rightarrow> [] | Some xs \<Rightarrow> xs)
                      @ filter (\<lambda>item. group_key rt f item = k) items)
           else None))"
  using assms
proof (induction items arbitrary: obj)
  case Nil
  show ?case by (auto simp: map_of_eq_None_iff split: option.splits)
next
  case (Cons item items)
  let ?k = "group_key rt f item"
  have k: "?k \<notin> set Object_prototype_keys" using Cons.prems by simp
  define obj1 where "obj1 = AList.update ?k
       ((case map_of obj ?k of None \<Rightarrow> [] | Some xs \<Rightarrow> xs) @ [item]) obj"
  have push: "group_push obj ?k item = Inr obj1"
    using k by (simp add: group_push_def obj1_def split: option.splits)
  have keys1: "map fst obj1 = (if ?k \<in> fst ` set obj then map fst obj else map fst obj @ [?k])"
    by (simp add: obj1_def update_keys)
  have dom1: "fst ` set obj1 = insert ?k (fst ` set obj)"
    by (simp add: obj1_def dom_update)
  have val1: "map_of obj1 = (map_of obj)(?k \<mapsto> (case map_of obj ?k of None \<Rightarrow> [] | Some xs \<Rightarrow> xs) @ [item])"
    by (simp add: obj1_def update_conv')
  from Cons.IH[of obj1] Cons.prems
  obtain obj' where o: "group_by rt f items obj1 = Inr obj'"
    and keys: "map fst obj' = map fst obj1
          @ filter (\<lambda>k. k \<notin> fst ` set obj1) (first_occurrences (map (group_key rt f) items))"
    and vals: "\<And>k. map_of obj' k =
          (if k \<in> fst ` set obj1 \<union> group_key rt f ` set items
           then Some ((case map_of obj1 k of None \<Rightarrow> [] | Some xs \<Rightarrow> xs)
                      @ filter (\<lambda>item. group_key rt f item = k) items)
           else None)"
    by auto
  have res: "group_by rt f (item # items) obj = Inr obj'" using push o by simp
  have keys': "map fst obj' = map fst obj
          @ filter (\<lambda>k. k \<notin> fst ` set obj) (first_occurrences (map (group_key rt f) (item # items)))"
  proof (cases "?k \<in> fst ` set obj")
    case True
    then have "(\<lambda>k. k \<noteq> ?k \<and> k \<notin> fst ` set obj) = (\<lambda>k. k \<notin> fst ` set obj)" by auto
    with True show ?thesis using keys keys1 dom1 by (simp add: insert_absorb conj_commute)
  next
    case False
    then show ?thesis using keys keys1 dom1 by (simp add: conj_commute)
  qed
  have vals': "map_of obj' k =
          (if k \<in> fst ` set obj \<union> group_key rt f ` set (item # items)
           then Some ((case map_of obj k of None \<Rightarrow> [] | Some xs \<Rightarrow> xs)
                      @ filter (\<lambda>item. group_key rt f item = k) (item # items))
           else None)" for k
  proof -
    have dom: "(j \<in> fst ` set obj) = (map_of obj j \<noteq> None)" for j
      by (simp add: map_of_eq_None_iff)
    show ?thesis
      using vals[of k] val1 unfolding dom1
      by (cases "k = ?k") (auto simp: dom split: option.splits)
  qed
  show ?case using res keys' vals' by blast
qed


lemma set_own_keys_order [simp]: "set (own_keys_order ks) = set ks"
  by (auto simp: own_keys_order_def)

lemma Object_entries_group_by:
  assumes "\<forall>item\<in>set data. group_key rt f item \<notin> set Object_prototype_keys"
  shows "\<exists>obj. group_by rt f data [] = Inr obj \<and> Object_entries obj = process_groups rt f data"
proof -
  from group_by_characterisation[OF assms, of "[]"]
  obtain obj where o: "group_by rt f data [] = Inr obj"
    and keys: "map fst obj = first_occurrences (map (group_key rt f) data)"
    and vals: "\<And>k. map_of obj k =
          (if k \<in> group_key rt f ` set data
           then Some (filter (\<lambda>item. group_key rt f item = k) data) else None)"
    by auto
  have "Object_entries obj = process_groups rt f data"
    unfolding Object_entries_def process_groups_def group_names_def keys
    by (rule map_cong) (auto simp: vals)
  with o show ?thesis by blast
qed

lemma filter_sort_insert:
  assumes "\<And>y. cmp x y > Fin 0 \<Longrightarrow> key y \<noteq> key x"
  shows "filter (\<lambda>y. key y = a) (sort_insert cmp x ys)
     = (if key x = a then x # filter (\<lambda>y. key y = a) ys else filter (\<lambda>y. key y = a) ys)"
proof (induction ys)
  case Nil
  show ?case by simp
next
  case (Cons y ys)
  have "cmp x y > Fin 0 \<Longrightarrow> key y \<noteq> key x" by (rule assms)
  then show ?case using Cons by auto
qed

lemma filter_Array_sort:
  assumes "\<And>x y. cmp x y > Fin 0 \<Longrightarrow> key y \<noteq> key x"
  shows "filter (\<lambda>y. key y = a) (Array_sort cmp xs) = filter (\<lambda>y. key y = a) xs"
proof (induction xs)
  case Nil
  show ?case by (simp add: Array_sort_def)
next
  case (Cons x xs)
  have "Array_sort cmp (x # xs) = sort_insert cmp x (Array_sort cmp xs)"
    by (simp add: Array_sort_def)
  then show ?case using Cons assms by (simp add: filter_sort_insert[of cmp x key])
qed

lemma diff_pos_neq: "(a::jsnum) - b > Fin 0 \<Longrightarrow> a \<noteq> b"
  by (cases a; cases b) auto

lemma sorted_sort_insert_wrt:
  assumes tot: "\<And>x y. x \<in> A \<Longrightarrow> y \<in> A \<Longrightarrow> (cmp x y > Fin 0 \<longrightarrow> R y x) \<and> (\<not> cmp x y > Fin 0 \<longrightarrow> R x y)"
    and trans: "\<And>x y z. x \<in> A \<Longrightarrow> y \<in> A \<Longrightarrow> z \<in> A \<Longrightarrow> R x y \<Longrightarrow> R y z \<Longrightarrow> R x z"
  shows "x \<in> A \<Longrightarrow> set ys \<subseteq> A \<Longrightarrow> sorted_wrt R ys \<Longrightarrow> sorted_wrt R (sort_insert cmp x ys)"
proof (induction ys)
  case Nil
  then show ?case by simp
next
  case (Cons y ys)
  then have xA: "x \<in> A" and yA: "y \<in> A" and ysA: "set ys \<subseteq> A" by auto
  show ?case
  proof (cases "cmp x y > Fin 0")
    case True
    then have "R y x" using tot[OF xA yA] by simp
    with Cons True show ?thesis by auto
  next
    case False
    then have xy: "R x y" using tot[OF xA yA] by simp
    have "\<forall>z\<in>set ys. R x z"
    proof
      fix z assume z: "z \<in> set ys"
      then have "R y z" using Cons.prems by auto
      with xy show "R x z" using trans[OF xA yA] z ysA by blast
    qed
    with Cons False xy show ?thesis by auto
  qed
qed

lemma sorted_Array_sort_wrt:
  assumes tot: "\<And>x y. x \<in> A \<Longrightarrow> y \<in> A \<Longrightarrow> (cmp x y > Fin 0 \<longrightarrow> R y x) \<and> (\<not> cmp x y > Fin 0 \<longrightarrow> R x y)"
    and trans: "\<And>x y z. x \<in> A \<Longrightarrow> y \<in> A \<Longrightarrow> z \<in> A \<Longrightarrow> R x y \<Longrightarrow> R y z \<Longrightarrow> R x z"
  shows "set xs \<subseteq> A \<Longrightarrow> sorted_wrt R (Array_sort cmp xs)"
proof (induction xs)
  case Nil
  show ?case by (simp add: Array_sort_def)
next
  case (Cons x xs)
  have "sorted_wrt R (sort_insert cmp x (Array_sort cmp xs))"
    using Cons by (intro sorted_sort_insert_wrt[where A = A, OF tot trans]) auto
  then show ?case by (simp add: Array_sort_def)
qed


lemma rank_process_fields [simp]:
  "processType (rank_process opts h s (i, p)) = processType p"
  "bp_average (rank_process opts h s (i, p)) = bp_average p"
  "rank (rank_process opts h s (i, p)) = i + 1"
  "percentileBetter (rank_process opts h s (i, p))
     = num (significantlyBetterCount (rank_process opts h s (i, p))) / num (max 1 (length s - 1)) * Fin 100"
  by (simp_all add: rank_process_def Let_def Performance.extend_def RankedPerformance.fields_def
      del: num_simps)

lemma map_rank_process:
  assumes "\<And>i p. g (rank_process opts h s (i, p)) = g' p"
  shows "map g (map (rank_process opts h s) (enumerate n xs)) = map g' xs"
  using assms by (induction xs arbitrary: n) auto

lemma filter_rank_process:
  assumes "\<And>i p. P (rank_process opts h s (i, p)) = P' p"
  shows "map processType (filter P (map (rank_process opts h s) (enumerate n xs)))
     = map processType (filter P' xs)"
  using assms by (induction xs arbitrary: n) auto

lemma map_rank_enumerate:
  "map rank (map (rank_process opts h s) (enumerate n xs)) = [Suc n..<Suc (n + length xs)]"
proof (induction xs arbitrary: n)
  case Nil
  show ?case by simp
next
  case (Cons x xs)
  have "map rank (map (rank_process opts h s) (enumerate n (x # xs)))
      = Suc n # map rank (map (rank_process opts h s) (enumerate (Suc n) xs))" by simp
  also have "\<dots> = Suc n # [Suc (Suc n)..<Suc (Suc n + length xs)]" by (simp only: Cons)
  also have "\<dots> = [Suc n..<Suc (n + length (x # xs))]"
    by (simp add: upt_conv_Cons del: upt_Suc)
  finally show ?case .
qed

lemma performance_of_group:
  "map processType (filter (\<lambda>p. P (bp_average p))
       (List.map_filter (performance_of rt opts pf) (map (\<lambda>k. (k, items k)) ks)))
   = filter (\<lambda>k. 3 \<le> length (numeric_values rt (items k) pf)
                \<and> P (PA_calculateMean (numeric_values rt (items k) pf))) ks"
  by (induction ks) (auto simp: performance_of_def Let_def)

lemma performance_of_average:
  "p \<in> set (List.map_filter (performance_of rt opts pf) (map (\<lambda>k. (k, items k)) ks))
   \<Longrightarrow> bp_average p = PA_calculateMean (numeric_values rt (items (processType p)) pf)"
  by (induction ks) (auto simp: performance_of_def Let_def split: if_splits)


lemma sorted_by_average:
  fixes xs :: "Performance list"
  assumes "\<forall>p\<in>set xs. bp_average p \<noteq> NaN"
  shows "sorted_wrt (\<lambda>a b. if h then b \<le> a else a \<le> b)
           (map bp_average (Array_sort (\<lambda>a b. if h then bp_average b - bp_average a
                                           else bp_average a - bp_average b) xs))"
proof -
  let ?cmp = "\<lambda>a b. if h then bp_average b - bp_average a else bp_average a - bp_average b"
  let ?R = "\<lambda>p q. if h then bp_average q \<le> bp_average p else bp_average p \<le> bp_average q"
  let ?A = "{p::Performance. bp_average p \<noteq> NaN}"
  have tot: "(?cmp x y > Fin 0 \<longrightarrow> ?R y x) \<and> (\<not> ?cmp x y > Fin 0 \<longrightarrow> ?R x y)"
    if "x \<in> ?A" "y \<in> ?A" for x y
  proof -
    from that have n: "bp_average x \<noteq> NaN" "bp_average y \<noteq> NaN" by simp_all
    have 1: "bp_average y - bp_average x > Fin 0 \<Longrightarrow> bp_average x \<le> bp_average y"
      using n by (simp add: diff_pos_iff jsnum_less_imp_le)
    have 2: "\<not> bp_average y - bp_average x > Fin 0 \<Longrightarrow> bp_average y \<le> bp_average x"
      using n by (simp add: diff_pos_iff jsnum_le_total)
    have 3: "bp_average x - bp_average y > Fin 0 \<Longrightarrow> bp_average y \<le> bp_average x"
      using n by (simp add: diff_pos_iff jsnum_less_imp_le)
    have 4: "\<not> bp_average x - bp_average y > Fin 0 \<Longrightarrow> bp_average x \<le> bp_average y"
      using n by (simp add: diff_pos_iff jsnum_le_total)
    show ?thesis using 1 2 3 4 by (cases h) simp_all
  qed
  have trans: "?R x z" if "?R x y" "?R y z" for x y z
  proof (cases h)
    case True
    with that have "bp_average z \<le> bp_average y" "bp_average y \<le> bp_average x" by simp_all
    then have "bp_average z \<le> bp_average x" by (rule jsnum_le_trans)
    with True show ?thesis by simp
  next
    case False
    with that have "bp_average x \<le> bp_average y" "bp_average y \<le> bp_average z" by simp_all
    then have "bp_average x \<le> bp_average z" by (rule jsnum_le_trans)
    with False show ?thesis by simp
  qed
  have "sorted_wrt ?R (Array_sort ?cmp xs)"
  proof (rule sorted_Array_sort_wrt[where A = ?A and R = ?R and cmp = ?cmp])
    fix x y :: Performance
    assume "x \<in> ?A" "y \<in> ?A"
    then show "(?cmp x y > Fin 0 \<longrightarrow> ?R y x) \<and> (\<not> ?cmp x y > Fin 0 \<longrightarrow> ?R x y)"
      by (rule tot)
  next
    fix x y z :: Performance
    assume "?R x y" "?R y z"
    then show "?R x z" by (rule trans)
  next
    show "set xs \<subseteq> ?A" using assms by auto
  qed
  then show ?thesis by (simp add: sorted_wrt_map)
qed



lemma tie_records_keys:
  "\<forall>item\<in>set tie_records. group_key example_runtime ''Type'' item \<notin> set Object_prototype_keys"
  by (simp add: tie_records_def group_key_def get_field_def Object_prototype_keys_def)

lemma tie_records_names: "group_names example_runtime ''Type'' tie_records = [''1'', ''2'']"
  by (simp add: group_names_def tie_records_def group_key_def get_field_def tie_entries)

lemma tie_records_values:
  "group_values example_runtime ''Type'' ''Score'' tie_records ''1'' = [Fin 1, Fin 1, Fin 1]"
  "group_values example_runtime ''Type'' ''Score'' tie_records ''2'' = [Fin 1, Fin 1, Fin 1]"
  by (simp_all add: group_values_def tie_records_def group_key_def get_field_def numeric_values_def isNaN_def)


subsection \<open>The dashboard report\<close>


end
